theory Spec2Isabelle
  imports Main "HOL-Library.Sublist"
begin

section \<open>rmsync: data model\<close>

text \<open>
  Go strings and byte slices are both sequences of bytes; they are modelled as
  \<^typ>\<open>char list\<close>. Go's \<open>error\<close> interface is a datatype that keeps the one
  distinction the program looks at (\<open>os.IsNotExist\<close>); every other error is
  opaque and only ever handed back to the caller.
\<close>

type_synonym path = string
type_synonym url = string
type_synonym bytes = string

datatype error = ErrNotExist string | ErrOther string

text \<open>\<open>os.IsNotExist(err)\<close>: false for a nil error and for any other kind of error.\<close>

fun os_IsNotExist :: "error option \<Rightarrow> bool" where
  "os_IsNotExist (Some (ErrNotExist _)) = True"
| "os_IsNotExist _ = False"

definition BaseDir :: path where
  "BaseDir = ''/home/root/.local/share/remarkable/xochitl/''"

record Metadata =
  Deleted :: bool
  DastModified :: string
  Metadatamodified :: bool
  Modified :: bool
  Parent :: string
  Pinned :: bool
  Synced :: bool
  Type :: string
  Version :: int
  VisibleName :: string

record RemarkableFile =
  Filename :: string
  VisibleName :: string

record FileToSync =
  Filename :: string
  Url :: string

section \<open>The outside world\<close>

text \<open>
  One invocation of the callback that \<open>filepath.Walk\<close> is given:
  the path, \<open>info.IsDir()\<close>, and the error Walk reports for that path.
\<close>

datatype visit = Visit (vpath: path) (vIsDir: bool) (verr: "error option")

text \<open>An HTTP response, as far as the program reads it: what reading the body to its end yields.\<close>

record Response =
  StatusCode :: int
  Body :: "error + bytes"

text \<open>
  The multipart writer of \<open>mime/multipart\<close>, at the level of the form it encodes:
  the boundary, the parts created so far (the last one is the open part), the
  sticky write error of the open part, and whether the closing delimiter was written.
\<close>

record FormFile =
  FieldName :: string
  FileName :: string
  Payload :: bytes

record Writer =
  Boundary :: string
  Parts :: "FormFile list"
  WriteErr :: "error option"
  Finished :: bool

record Request =
  Method :: string
  URL :: url
  Header :: "string \<rightharpoonup> string"
  Form :: Writer

text \<open>
  Everything the program asks of the operating system, the libraries and the network.
  \<open>'w\<close> is the state of the device and the network; reading the file system does
  not change it, an HTTP call may.
\<close>

record 'w env =
  fs_Walk :: "'w \<Rightarrow> path \<Rightarrow> visit list"
  os_ReadFile :: "'w \<Rightarrow> path \<Rightarrow> error + bytes"
  os_Stat :: "'w \<Rightarrow> path \<Rightarrow> error option"
  json_Unmarshal :: "bytes \<Rightarrow> error + Metadata"
  client_Get :: "'w \<Rightarrow> url \<Rightarrow> (error + Response) \<times> 'w"
  client_Do :: "'w \<Rightarrow> Request \<Rightarrow> (error + Response) \<times> 'w"
  rand_Boundary :: "'w \<Rightarrow> string"
  fault_CreateFormFile :: "'w \<Rightarrow> error option"
  fault_Write :: "'w \<Rightarrow> (nat \<times> error) option"
  fault_Close :: "'w \<Rightarrow> error option"

section \<open>Path helpers of the Go library\<close>

text \<open>
  \<open>filepath.Ext\<close>: the suffix starting at the last dot of the last path element,
  empty when that element has no dot. The scan runs from the end of the path.
\<close>

fun ext_scan :: "string \<Rightarrow> string \<Rightarrow> string" where
  "ext_scan [] acc = []"
| "ext_scan (c # cs) acc =
     (if c = CHR ''/'' then []
      else if c = CHR ''.'' then c # acc
      else ext_scan cs (c # acc))"

definition filepath_Ext :: "path \<Rightarrow> string" where
  "filepath_Ext p = ext_scan (rev p) []"

definition strings_TrimSuffix :: "string \<Rightarrow> string \<Rightarrow> string" where
  "strings_TrimSuffix s suf =
     (if suffix suf s then take (length s - length suf) s else s)"

section \<open>Scanning the metadata store\<close>

text \<open>The closure passed to \<open>filepath.Walk\<close>: its returned error and the updated \<open>filenames\<close>.\<close>

definition walkFn :: "path list \<Rightarrow> visit \<Rightarrow> error option \<times> path list" where
  "walkFn filenames v =
     (case verr v of
        Some e \<Rightarrow> (Some e, filenames)
      | None \<Rightarrow>
          if vIsDir v \<or> filepath_Ext (vpath v) \<noteq> ''.metadata'' then (None, filenames)
          else (None, filenames @ [vpath v]))"

text \<open>\<open>filepath.Walk\<close> stops at the first visit for which the closure returns an error.\<close>

fun filepath_Walk :: "visit list \<Rightarrow> path list \<Rightarrow> error option \<times> path list" where
  "filepath_Walk [] filenames = (None, filenames)"
| "filepath_Walk (v # vs) filenames =
     (case walkFn filenames v of
        (Some e, filenames') \<Rightarrow> (Some e, filenames')
      | (None, filenames') \<Rightarrow> filepath_Walk vs filenames')"

definition getMetadataFilenames :: "'w env \<Rightarrow> 'w \<Rightarrow> error + path list" where
  "getMetadataFilenames env w =
     (case filepath_Walk (fs_Walk env w BaseDir) [] of
        (Some e, _) \<Rightarrow> Inl e
      | (None, filenames) \<Rightarrow> Inr filenames)"

fun directories_loop ::
  "'w env \<Rightarrow> 'w \<Rightarrow> path list \<Rightarrow> RemarkableFile list \<Rightarrow> error + RemarkableFile list" where
  "directories_loop env w [] directories = Inr directories"
| "directories_loop env w (filename # rest) directories =
     (case os_ReadFile env w filename of
        Inl e \<Rightarrow> Inl e
      | Inr filecontent \<Rightarrow>
          (case json_Unmarshal env filecontent of
             Inl e \<Rightarrow> Inl e
           | Inr metadata \<Rightarrow>
               if Type metadata = ''CollectionType''
               then directories_loop env w rest
                      (directories @
                       [\<lparr>RemarkableFile.Filename = filename,
                         RemarkableFile.VisibleName = Metadata.VisibleName metadata\<rparr>])
               else directories_loop env w rest directories))"

definition GetDirectoriesMetadataFiles :: "'w env \<Rightarrow> 'w \<Rightarrow> error + RemarkableFile list" where
  "GetDirectoriesMetadataFiles env w =
     (case getMetadataFilenames env w of
        Inl e \<Rightarrow> Inl e
      | Inr filenames \<Rightarrow> directories_loop env w filenames [])"

definition pdfFilename_of :: "path \<Rightarrow> path" where
  "pdfFilename_of filename = strings_TrimSuffix filename (filepath_Ext filename) @ ''.pdf''"

fun pdfFiles_loop ::
  "'w env \<Rightarrow> 'w \<Rightarrow> path list \<Rightarrow> RemarkableFile list \<Rightarrow> error + RemarkableFile list" where
  "pdfFiles_loop env w [] pdfFiles = Inr pdfFiles"
| "pdfFiles_loop env w (filename # rest) pdfFiles =
     (case os_ReadFile env w filename of
        Inl e \<Rightarrow> Inl e
      | Inr filecontent \<Rightarrow>
          (case json_Unmarshal env filecontent of
             Inl e \<Rightarrow> Inl e
           | Inr metadata \<Rightarrow>
               if Type metadata = ''DocumentType''
               then (let pdfFilename = pdfFilename_of filename in
                     if \<not> os_IsNotExist (os_Stat env w pdfFilename)
                     then pdfFiles_loop env w rest
                            (pdfFiles @
                             [\<lparr>RemarkableFile.Filename = pdfFilename,
                               RemarkableFile.VisibleName = Metadata.VisibleName metadata\<rparr>])
                     else pdfFiles_loop env w rest pdfFiles)
               else pdfFiles_loop env w rest pdfFiles))"

definition GetPdfFiles :: "'w env \<Rightarrow> 'w \<Rightarrow> error + RemarkableFile list" where
  "GetPdfFiles env w =
     (case getMetadataFilenames env w of
        Inl e \<Rightarrow> Inl e
      | Inr filenames \<Rightarrow> pdfFiles_loop env w filenames [])"

section \<open>Inventory\<close>

text \<open>Go's \<open>map[string]struct{}\<close>: a map to the one-element type.\<close>

fun fileMap_loop :: "RemarkableFile list \<Rightarrow> (string \<rightharpoonup> unit) \<Rightarrow> (string \<rightharpoonup> unit)" where
  "fileMap_loop [] fileMap = fileMap"
| "fileMap_loop (file # rest) fileMap =
     fileMap_loop rest (fileMap(RemarkableFile.VisibleName file \<mapsto> ()))"

definition createRemarkableFileMap :: "RemarkableFile list \<Rightarrow> (string \<rightharpoonup> unit)" where
  "createRemarkableFileMap files = fileMap_loop files Map.empty"

section \<open>Fetching\<close>

definition ioutil_ReadAll :: "error + bytes \<Rightarrow> error + bytes" where
  "ioutil_ReadAll body = body"

definition downloadPdfFile :: "'w env \<Rightarrow> url \<Rightarrow> 'w \<Rightarrow> (error + bytes) \<times> 'w" where
  "downloadPdfFile env url w =
     (case client_Get env w url of
        (Inl e, w') \<Rightarrow> (Inl e, w')
      | (Inr r, w') \<Rightarrow>
          (case ioutil_ReadAll (Body r) of
             Inl e \<Rightarrow> (Inl e, w')
           | Inr fileContents \<Rightarrow> (Inr fileContents, w')))"

section \<open>Request construction in the Go library\<close>

text \<open>
  \<open>http.NewRequest\<close> fails on its arguments alone: when the method is not a token, or
  when \<open>url.Parse\<close> rejects the URL. The checks below follow \<open>net/http\<close> and
  \<open>net/url\<close>: control characters, the scheme, a colon in the first segment of a
  relative path, the port and the characters of the host, and percent escapes.
\<close>

definition byte :: "char \<Rightarrow> nat" where
  "byte c = of_char c"

definition isLetter :: "char \<Rightarrow> bool" where
  "isLetter c = ((97 \<le> byte c \<and> byte c \<le> 122) \<or> (65 \<le> byte c \<and> byte c \<le> 90))"

definition isDigit :: "char \<Rightarrow> bool" where
  "isDigit c = (48 \<le> byte c \<and> byte c \<le> 57)"

definition isHex :: "char \<Rightarrow> bool" where
  "isHex c = (isDigit c \<or> (97 \<le> byte c \<and> byte c \<le> 102) \<or> (65 \<le> byte c \<and> byte c \<le> 70))"

definition isTokenRune :: "char \<Rightarrow> bool" where
  "isTokenRune c =
     (isLetter c \<or> isDigit c \<or>
      c \<in> set [CHR ''!'', CHR ''#'', CHR ''$'', CHR ''%'', CHR ''&'', CHR 0x27, CHR ''*'', CHR ''+'',
                CHR ''-'', CHR ''.'', CHR ''^'', CHR ''_'', CHR 0x60, CHR ''|'', CHR ''~''])"

definition validMethod :: "string \<Rightarrow> bool" where
  "validMethod method = (method \<noteq> [] \<and> list_all isTokenRune method)"

definition stringContainsCTLByte :: "string \<Rightarrow> bool" where
  "stringContainsCTLByte s = list_ex (\<lambda>c. byte c < 32 \<or> byte c = 127) s"

fun getScheme_scan :: "string \<Rightarrow> string \<Rightarrow> string \<Rightarrow> error + (string \<times> string)" where
  "getScheme_scan rawURL seen [] = Inr ([], rawURL)"
| "getScheme_scan rawURL seen (c # cs) =
     (if isLetter c then getScheme_scan rawURL (seen @ [c]) cs
      else if isDigit c \<or> c = CHR ''+'' \<or> c = CHR ''-'' \<or> c = CHR ''.''
      then (if seen = [] then Inr ([], rawURL) else getScheme_scan rawURL (seen @ [c]) cs)
      else if c = CHR '':''
      then (if seen = [] then Inl (ErrOther ''missing protocol scheme'') else Inr (seen, cs))
      else Inr ([], rawURL))"

definition getScheme :: "string \<Rightarrow> error + (string \<times> string)" where
  "getScheme rawURL = getScheme_scan rawURL [] rawURL"

definition strings_Cut :: "string \<Rightarrow> char \<Rightarrow> string \<times> string" where
  "strings_Cut s sep = (takeWhile (\<lambda>c. c \<noteq> sep) s, drop 1 (dropWhile (\<lambda>c. c \<noteq> sep) s))"

fun validEscapes :: "string \<Rightarrow> bool" where
  "validEscapes [] = True"
| "validEscapes (c # cs) =
     (if c = CHR ''%''
      then (case cs of
              a # b # rest \<Rightarrow> isHex a \<and> isHex b \<and> validEscapes rest
            | _ \<Rightarrow> False)
      else validEscapes cs)"

definition validOptionalPort :: "string \<Rightarrow> bool" where
  "validOptionalPort port =
     (case port of
        [] \<Rightarrow> True
      | c # ds \<Rightarrow> c = CHR '':'' \<and> list_all isDigit ds)"

definition hostByteAllowed :: "char \<Rightarrow> bool" where
  "hostByteAllowed c =
     (128 \<le> byte c \<or> isLetter c \<or> isDigit c \<or>
      c \<in> set [CHR ''-'', CHR ''_'', CHR ''.'', CHR ''~'', CHR ''%'', CHR ''!'', CHR ''$'', CHR ''&'',
                CHR 0x27, CHR ''('', CHR '')'', CHR ''*'', CHR ''+'', CHR '','', CHR '';'', CHR ''='',
                CHR '':'', CHR ''['', CHR '']'', CHR ''<'', CHR ''>'', CHR 0x22])"

definition afterLast :: "char \<Rightarrow> string \<Rightarrow> string" where
  "afterLast sep s = rev (takeWhile (\<lambda>c. c \<noteq> sep) (rev s))"

definition parseHost :: "string \<Rightarrow> error option" where
  "parseHost host =
     (if take 1 host = ''[''
      then (if CHR '']'' \<notin> set host then Some (ErrOther ''missing ] in host'')
            else if \<not> validOptionalPort (afterLast CHR '']'' host)
            then Some (ErrOther ''invalid port after host'')
            else if \<not> validEscapes host then Some (ErrOther ''invalid URL escape'')
            else None)
      else if CHR '':'' \<in> set host \<and> \<not> validOptionalPort (CHR '':'' # afterLast CHR '':'' host)
      then Some (ErrOther ''invalid port after host'')
      else if \<not> validEscapes host then Some (ErrOther ''invalid URL escape'')
      else if \<not> list_all hostByteAllowed host then Some (ErrOther ''invalid character in host name'')
      else None)"

definition parseAuthority :: "string \<Rightarrow> error option" where
  "parseAuthority authority =
     (if CHR ''@'' \<in> set authority
      then (case parseHost (afterLast CHR ''@'' authority) of
              Some e \<Rightarrow> Some e
            | None \<Rightarrow>
                if validEscapes (take (length authority - length (afterLast CHR ''@'' authority) - 1) authority)
                then None else Some (ErrOther ''invalid URL escape''))
      else parseHost authority)"

definition url_Parse :: "string \<Rightarrow> error option" where
  "url_Parse rawURL =
     (let u = fst (strings_Cut rawURL CHR ''#'') in
      if stringContainsCTLByte u then Some (ErrOther ''invalid control character in URL'')
      else if u = ''*'' then None
      else (case getScheme u of
              Inl e \<Rightarrow> Some e
            | Inr (scheme, rest0) \<Rightarrow>
                (let rest = fst (strings_Cut rest0 CHR ''?'') in
                 if take 1 rest \<noteq> ''/'' \<and> scheme \<noteq> [] then None
                 else if take 1 rest \<noteq> ''/'' \<and> CHR '':'' \<in> set (fst (strings_Cut rest CHR ''/''))
                 then Some (ErrOther ''first path segment in URL cannot contain colon'')
                 else if (scheme \<noteq> [] \<or> take 3 rest \<noteq> ''///'') \<and> take 2 rest = ''//''
                 then (case parseAuthority (takeWhile (\<lambda>c. c \<noteq> CHR ''/'') (drop 2 rest)) of
                         Some e \<Rightarrow> Some e
                       | None \<Rightarrow>
                           if validEscapes (dropWhile (\<lambda>c. c \<noteq> CHR ''/'') (drop 2 rest))
                           then None else Some (ErrOther ''invalid URL escape''))
                 else if validEscapes rest then None
                 else Some (ErrOther ''invalid URL escape''))))"

section \<open>Uploading\<close>

text \<open>
  The calls of \<open>mime/multipart\<close> and \<open>net/http\<close> that the uploader makes. A call on
  the multipart writer can fail as the environment decides; a failed \<open>Write\<close> on a part
  is remembered in the part and returned by \<open>Close\<close>. \<open>http.NewRequest\<close> takes an empty
  method for \<open>GET\<close>, and returns a nil request together with its error when it rejects
  the method or the URL.
\<close>

definition multipart_NewWriter :: "string \<Rightarrow> Writer" where
  "multipart_NewWriter b = \<lparr>Boundary = b, Parts = [], WriteErr = None, Finished = False\<rparr>"

definition CreateFormFile ::
  "'w env \<Rightarrow> 'w \<Rightarrow> Writer \<Rightarrow> string \<Rightarrow> string \<Rightarrow> error + Writer" where
  "CreateFormFile env w writer fieldname filename =
     (case fault_CreateFormFile env w of
        Some e \<Rightarrow> Inl e
      | None \<Rightarrow>
          Inr (writer\<lparr>Parts := Parts writer @
                 [\<lparr>FieldName = fieldname, FileName = filename, Payload = []\<rparr>]\<rparr>))"

definition part_append :: "FormFile list \<Rightarrow> bytes \<Rightarrow> FormFile list" where
  "part_append ps d =
     (case ps of
        [] \<Rightarrow> []
      | _ # _ \<Rightarrow> butlast ps @ [(last ps)\<lparr>Payload := Payload (last ps) @ d\<rparr>])"

definition part_Write :: "'w env \<Rightarrow> 'w \<Rightarrow> Writer \<Rightarrow> bytes \<Rightarrow> Writer" where
  "part_Write env w writer d =
     (case fault_Write env w of
        Some (n, e) \<Rightarrow> writer\<lparr>Parts := part_append (Parts writer) (take n d), WriteErr := Some e\<rparr>
      | None \<Rightarrow> writer\<lparr>Parts := part_append (Parts writer) d\<rparr>)"

definition Writer_Close :: "'w env \<Rightarrow> 'w \<Rightarrow> Writer \<Rightarrow> error option \<times> Writer" where
  "Writer_Close env w writer =
     (case WriteErr writer of
        Some e \<Rightarrow> (Some e, writer)
      | None \<Rightarrow>
          (case fault_Close env w of
             Some e \<Rightarrow> (Some e, writer)
           | None \<Rightarrow> (None, writer\<lparr>Finished := True\<rparr>)))"

definition FormDataContentType :: "Writer \<Rightarrow> string" where
  "FormDataContentType writer = ''multipart/form-data; boundary='' @ Boundary writer"

definition http_NewRequest ::
  "string \<Rightarrow> url \<Rightarrow> Writer \<Rightarrow> Request option \<times> error option" where
  "http_NewRequest method0 u body =
     (let method = (if method0 = [] then ''GET'' else method0) in
      if \<not> validMethod method then (None, Some (ErrOther (''net/http: invalid method '' @ method)))
      else (case url_Parse u of
              Some e \<Rightarrow> (None, Some e)
            | None \<Rightarrow>
                (Some \<lparr>Method = method, URL = u, Header = Map.empty, Form = body\<rparr>, None)))"

definition Header_Set :: "Request \<Rightarrow> string \<Rightarrow> string \<Rightarrow> Request" where
  "Header_Set req k v = req\<lparr>Header := (Header req)(k \<mapsto> v)\<rparr>"

text \<open>A call either returns or panics (the process crashes).\<close>

datatype 'a exec = Returns 'a | Panics string

text \<open>
  The result of \<open>UploadPdfToTablet\<close>: how the call ends (\<open>Returns None\<close> is a nil
  error), the requests it handed to \<open>myClient.Do\<close>, and the state afterwards.
  The three \<open>req.Header.Set\<close> calls come before the check of \<open>NewRequest\<close>'s error,
  so they run on the nil request when there is one.
\<close>

definition UploadPdfToTablet ::
  "'w env \<Rightarrow> bytes \<Rightarrow> string \<Rightarrow> 'w \<Rightarrow> error option exec \<times> Request list \<times> 'w" where
  "UploadPdfToTablet env fileContents filename w =
     (let writer = multipart_NewWriter (rand_Boundary env w) in
      case CreateFormFile env w writer ''file'' filename of
        Inl e \<Rightarrow> (Returns (Some e), [], w)
      | Inr writer1 \<Rightarrow>
          (let writer2 = part_Write env w writer1 fileContents in
           case Writer_Close env w writer2 of
             (Some e, _) \<Rightarrow> (Returns (Some e), [], w)
           | (None, writer3) \<Rightarrow>
               (case http_NewRequest ''POST'' ''http://10.11.99.1/upload'' writer3 of
                  (None, _) \<Rightarrow> (Panics ''nil pointer dereference'', [], w)
                | (Some req0, err) \<Rightarrow>
                    (let req1 = Header_Set req0 ''Content-Type'' (FormDataContentType writer3);
                         req2 = Header_Set req1 ''Accept'' ''*/*'';
                         req = Header_Set req2 ''Connection'' ''keep-alive''
                     in case err of
                          Some e \<Rightarrow> (Returns (Some e), [], w)
                        | None \<Rightarrow>
                            (case client_Do env w req of
                               (Inl e, w') \<Rightarrow> (Returns (Some e), [req], w')
                             | (Inr _, w') \<Rightarrow> (Returns None, [req], w'))))))"

section \<open>Synchronisation\<close>

text \<open>What \<open>Sync\<close> calls, in order: \<open>downloadPdfFile(url)\<close> and \<open>UploadPdfToTablet(bytes, filename)\<close>.\<close>

datatype op = Fetch url | Upload bytes string

fun Sync_loop ::
  "'w env \<Rightarrow> (string \<rightharpoonup> unit) \<Rightarrow> FileToSync list \<Rightarrow> 'w \<Rightarrow> error option exec \<times> op list \<times> 'w" where
  "Sync_loop env pdfFileMap [] w = (Returns None, [], w)"
| "Sync_loop env pdfFileMap (item # rest) w =
     (if pdfFileMap (FileToSync.Filename item) = None
      then (case downloadPdfFile env (Url item) w of
              (Inl e, w1) \<Rightarrow> (Returns (Some e), [Fetch (Url item)], w1)
            | (Inr fileContents, w1) \<Rightarrow>
                (case UploadPdfToTablet env fileContents (FileToSync.Filename item) w1 of
                   (Returns None, _, w2) \<Rightarrow>
                     (case Sync_loop env pdfFileMap rest w2 of
                        (r, ops, w3) \<Rightarrow>
                          (r, Fetch (Url item) # Upload fileContents (FileToSync.Filename item) # ops, w3))
                 | (Returns (Some e), _, w2) \<Rightarrow>
                     (Returns (Some e),
                      [Fetch (Url item), Upload fileContents (FileToSync.Filename item)], w2)
                 | (Panics msg, _, w2) \<Rightarrow>
                     (Panics msg,
                      [Fetch (Url item), Upload fileContents (FileToSync.Filename item)], w2)))
      else Sync_loop env pdfFileMap rest w)"

definition Sync :: "'w env \<Rightarrow> FileToSync list \<Rightarrow> 'w \<Rightarrow> error option exec \<times> op list \<times> 'w" where
  "Sync env files w =
     (case GetPdfFiles env w of
        Inl e \<Rightarrow> (Returns (Some e), [], w)
      | Inr pdfFiles \<Rightarrow> Sync_loop env (createRemarkableFileMap pdfFiles) files w)"

text \<open>
  The transfer as the specification words it (section 4.5): for each request, in the
  caller's order, run the fetch and then the upload under the request's name, and stop
  at the first fetch or upload that fails. It looks at no inventory; claim C1 compares
  \<open>Sync\<close> with it on the requests whose name the inventory lacks.
\<close>

fun fetch_then_upload_each ::
  "'w env \<Rightarrow> FileToSync list \<Rightarrow> 'w \<Rightarrow> error option exec \<times> op list \<times> 'w" where
  "fetch_then_upload_each env [] w = (Returns None, [], w)"
| "fetch_then_upload_each env (request # later) w =
     (case downloadPdfFile env (Url request) w of
        (Inl e, fetched) \<Rightarrow> (Returns (Some e), [Fetch (Url request)], fetched)
      | (Inr content, fetched) \<Rightarrow>
          (case UploadPdfToTablet env content (FileToSync.Filename request) fetched of
             (Returns None, sent, uploaded) \<Rightarrow>
               (case fetch_then_upload_each env later uploaded of
                  (outcome, ops, final) \<Rightarrow>
                    (outcome,
                     [Fetch (Url request), Upload content (FileToSync.Filename request)] @ ops,
                     final))
           | (failure, sent, uploaded) \<Rightarrow>
               (failure,
                [Fetch (Url request), Upload content (FileToSync.Filename request)],
                uploaded)))"

section \<open>A sample device\<close>

text \<open>
  A small concrete environment on which the theorems below are instantiated.
  The device stores collections and documents under their display names; a document
  may lack its content file, and a metadata file may be garbled. Metadata files hold
  a one-letter tag and the display name, which \<open>demo_Unmarshal\<close> decodes. A fetch
  succeeds for \<open>http://\<close> URLs, and an upload stores each file of the form as a
  new document.
\<close>

datatype stored = Collection string | Document string bool | Garbled string

fun stored_base :: "stored \<Rightarrow> string" where
  "stored_base (Collection n) = n"
| "stored_base (Document n _) = n"
| "stored_base (Garbled n) = n"

fun has_content :: "stored \<Rightarrow> bool" where
  "has_content (Document _ b) = b"
| "has_content _ = False"

fun demo_content :: "stored \<Rightarrow> bytes" where
  "demo_content (Collection n) = CHR ''C'' # n"
| "demo_content (Document n _) = CHR ''D'' # n"
| "demo_content (Garbled n) = ''{''"

definition demo_metadata :: "string \<Rightarrow> string \<Rightarrow> Metadata" where
  "demo_metadata t n =
     \<lparr>Deleted = False, DastModified = [], Metadatamodified = False, Modified = False,
      Parent = [], Pinned = False, Synced = True, Type = t, Version = 1,
      Metadata.VisibleName = n\<rparr>"

fun demo_Unmarshal :: "bytes \<Rightarrow> error + Metadata" where
  "demo_Unmarshal [] = Inl (ErrOther ''unexpected end of JSON input'')"
| "demo_Unmarshal (c # n) =
     (if c = CHR ''C'' then Inr (demo_metadata ''CollectionType'' n)
      else if c = CHR ''D'' then Inr (demo_metadata ''DocumentType'' n)
      else Inl (ErrOther ''invalid character''))"

definition demo_visits :: "path \<Rightarrow> stored \<Rightarrow> visit list" where
  "demo_visits root s =
     Visit (root @ stored_base s @ ''.metadata'') False None #
     (if has_content s then [Visit (root @ stored_base s @ ''.pdf'') False None] else [])"

definition demo_Walk :: "stored list \<Rightarrow> path \<Rightarrow> visit list" where
  "demo_Walk w root = Visit root True None # concat (map (demo_visits root) w)"

definition demo_ReadFile :: "stored list \<Rightarrow> path \<Rightarrow> error + bytes" where
  "demo_ReadFile w p =
     (case find (\<lambda>s. BaseDir @ stored_base s @ ''.metadata'' = p) w of
        Some s \<Rightarrow> Inr (demo_content s)
      | None \<Rightarrow> Inl (ErrNotExist p))"

definition demo_Stat :: "stored list \<Rightarrow> path \<Rightarrow> error option" where
  "demo_Stat w p =
     (if list_ex (\<lambda>s. has_content s \<and> BaseDir @ stored_base s @ ''.pdf'' = p) w
      then None else Some (ErrNotExist p))"

definition demo_Get :: "stored list \<Rightarrow> url \<Rightarrow> (error + Response) \<times> stored list" where
  "demo_Get w u =
     (if take 7 u = ''http://''
      then (Inr \<lparr>StatusCode = 200, Body = Inr (''%PDF '' @ u)\<rparr>, w)
      else (Inl (ErrOther ''unsupported protocol scheme''), w))"

definition demo_Do :: "stored list \<Rightarrow> Request \<Rightarrow> (error + Response) \<times> stored list" where
  "demo_Do w req =
     (Inr \<lparr>StatusCode = 200, Body = Inr []\<rparr>,
      w @ map (\<lambda>p. Document (FileName p) True) (Parts (Form req)))"

definition demo_env :: "stored list env" where
  "demo_env =
     \<lparr>fs_Walk = demo_Walk, os_ReadFile = demo_ReadFile, os_Stat = demo_Stat,
      json_Unmarshal = demo_Unmarshal, client_Get = demo_Get, client_Do = demo_Do,
      rand_Boundary = (\<lambda>_. ''0123456789abcdef''),
      fault_CreateFormFile = (\<lambda>_. None), fault_Write = (\<lambda>_. None),
      fault_Close = (\<lambda>_. None)\<rparr>"

definition demo_device :: "stored list" where
  "demo_device = [Collection ''Notes'', Document ''Report'' True, Document ''Orphan'' False]"

definition garbled_device :: "stored list" where
  "garbled_device = [Collection ''Notes'', Garbled ''Broken'', Document ''Report'' True]"

text \<open>
  Further sample inputs: a device that holds the documents \<open>A\<close> and \<open>B\<close>, requests
  with a reachable and with an unreachable source, environments in which
  a call on the multipart writer fails, and one in which the device refuses the connection.
\<close>

definition ab_device :: "stored list" where
  "ab_device = [Document ''A'' True, Document ''B'' True]"

definition demo_request :: "string \<Rightarrow> FileToSync" where
  "demo_request n = \<lparr>FileToSync.Filename = n, Url = ''http://host/'' @ n\<rparr>"

definition unreachable_request :: "string \<Rightarrow> FileToSync" where
  "unreachable_request n = \<lparr>FileToSync.Filename = n, Url = ''ftp://host/'' @ n\<rparr>"

definition create_fault_env :: "stored list env" where
  "create_fault_env = demo_env\<lparr>fault_CreateFormFile := (\<lambda>_. Some (ErrOther ''short write''))\<rparr>"

definition write_fault_env :: "stored list env" where
  "write_fault_env = demo_env\<lparr>fault_Write := (\<lambda>_. Some (2, ErrOther ''buffer full''))\<rparr>"

definition close_fault_env :: "stored list env" where
  "close_fault_env = demo_env\<lparr>fault_Close := (\<lambda>_. Some (ErrOther ''closed pipe''))\<rparr>"

definition offline_env :: "stored list env" where
  "offline_env = demo_env\<lparr>client_Do := (\<lambda>w req. (Inl (ErrOther ''connection refused''), w))\<rparr>"

section \<open>Properties of the path helpers and the walk\<close>

lemma ext_scan_suffix: "\<exists>pre. rev cs @ acc = pre @ ext_scan cs acc"
proof (induction cs arbitrary: acc)
  case Nil
  show ?case by simp
next
  case (Cons c cs)
  show ?case
  proof (cases "c = CHR ''/''")
    case True
    then show ?thesis by simp
  next
    case False
    show ?thesis
    proof (cases "c = CHR ''.''")
      case True
      then show ?thesis by auto
    next
      case dot: False
      from Cons.IH [of "c # acc"] obtain pre where "rev cs @ c # acc = pre @ ext_scan cs (c # acc)"
        by blast
      with False dot show ?thesis by auto
    qed
  qed
qed

lemma filepath_Ext_suffix: "suffix (filepath_Ext p) p"
  using ext_scan_suffix [of "rev p" "[]"] by (auto simp: filepath_Ext_def suffix_def)

lemma metadata_name_split:
  assumes "filepath_Ext f = ''.metadata''"
  shows "\<exists>base. f = base @ ''.metadata'' \<and> pdfFilename_of f = base @ ''.pdf''"
proof -
  from filepath_Ext_suffix [of f] assms obtain base where f: "f = base @ ''.metadata''"
    by (auto simp: suffix_def)
  have "suffix ''.metadata'' f" using f by (simp add: suffix_def)
  then have "strings_TrimSuffix f ''.metadata'' = base"
    using f by (simp add: strings_TrimSuffix_def)
  then show ?thesis using f assms by (simp add: pdfFilename_of_def)
qed

lemma pdfFilename_of_inj:
  assumes "filepath_Ext f = ''.metadata''" "filepath_Ext g = ''.metadata''"
    and "pdfFilename_of f = pdfFilename_of g"
  shows "f = g"
  using metadata_name_split [OF assms(1)] metadata_name_split [OF assms(2)] assms(3)
  by auto

lemma filepath_Walk_ext:
  "filepath_Walk vs acc = (None, fs) \<Longrightarrow>
   \<forall>f\<in>set fs. f \<in> set acc \<or> filepath_Ext f = ''.metadata''"
proof (induction vs arbitrary: acc)
  case Nil
  then show ?case by simp
next
  case (Cons v vs)
  show ?case
  proof (cases "walkFn acc v")
    case (Pair r acc')
    with Cons.prems have r: "r = None" and w: "filepath_Walk vs acc' = (None, fs)"
      by (auto split: option.splits)
    from Pair r have "\<forall>f\<in>set acc'. f \<in> set acc \<or> filepath_Ext f = ''.metadata''"
      by (auto simp: walkFn_def split: option.splits if_splits)
    with Cons.IH [OF w] show ?thesis by blast
  qed
qed

lemma getMetadataFilenames_ext:
  "getMetadataFilenames env w = Inr fs \<Longrightarrow> f \<in> set fs \<Longrightarrow> filepath_Ext f = ''.metadata''"
  using filepath_Walk_ext [of "fs_Walk env w BaseDir" "[]" fs]
  by (auto simp: getMetadataFilenames_def split: prod.splits option.splits)


section \<open>Properties of the two scans\<close>

lemma directories_loop_set:
  "directories_loop env w fs acc = Inr out \<Longrightarrow>
   set out = set acc \<union>
     {\<lparr>RemarkableFile.Filename = f, RemarkableFile.VisibleName = Metadata.VisibleName m\<rparr> | f c m.
        f \<in> set fs \<and> os_ReadFile env w f = Inr c \<and> json_Unmarshal env c = Inr m \<and>
        Type m = ''CollectionType''}"
proof (induction fs arbitrary: acc)
  case Nil
  then show ?case by simp
next
  case (Cons g gs)
  from Cons.prems obtain c m where c: "os_ReadFile env w g = Inr c"
    and m: "json_Unmarshal env c = Inr m"
    by (auto split: sum.splits)
  show ?case
  proof (cases "Type m = ''CollectionType''")
    case True
    with Cons.prems c m have
      "directories_loop env w gs
         (acc @ [\<lparr>RemarkableFile.Filename = g, RemarkableFile.VisibleName = Metadata.VisibleName m\<rparr>]) = Inr out"
      by simp
    from Cons.IH [OF this] c m True show ?thesis by auto
  next
    case False
    with Cons.prems c m have "directories_loop env w gs acc = Inr out" by simp
    from Cons.IH [OF this] c m False show ?thesis by auto
  qed
qed

lemma pdfFiles_loop_set:
  "pdfFiles_loop env w fs acc = Inr out \<Longrightarrow>
   set out = set acc \<union>
     {\<lparr>RemarkableFile.Filename = pdfFilename_of f, RemarkableFile.VisibleName = Metadata.VisibleName m\<rparr> | f c m.
        f \<in> set fs \<and> os_ReadFile env w f = Inr c \<and> json_Unmarshal env c = Inr m \<and>
        Type m = ''DocumentType'' \<and> \<not> os_IsNotExist (os_Stat env w (pdfFilename_of f))}"
proof (induction fs arbitrary: acc)
  case Nil
  then show ?case by simp
next
  case (Cons g gs)
  from Cons.prems obtain c m where c: "os_ReadFile env w g = Inr c"
    and m: "json_Unmarshal env c = Inr m"
    by (auto split: sum.splits)
  show ?case
  proof (cases "Type m = ''DocumentType'' \<and> \<not> os_IsNotExist (os_Stat env w (pdfFilename_of g))")
    case True
    with Cons.prems c m have
      "pdfFiles_loop env w gs
         (acc @ [\<lparr>RemarkableFile.Filename = pdfFilename_of g, RemarkableFile.VisibleName = Metadata.VisibleName m\<rparr>]) = Inr out"
      by simp
    from Cons.IH [OF this] c m True show ?thesis by auto
  next
    case False
    with Cons.prems c m have "pdfFiles_loop env w gs acc = Inr out" by (auto split: if_splits)
    from Cons.IH [OF this] c m False show ?thesis by auto
  qed
qed

lemma directories_loop_total:
  "\<forall>g\<in>set fs. \<exists>c m. os_ReadFile env w g = Inr c \<and> json_Unmarshal env c = Inr m \<Longrightarrow>
   \<exists>out. directories_loop env w fs acc = Inr out"
  by (induction fs arbitrary: acc) auto

lemma pdfFiles_loop_total:
  "\<forall>g\<in>set fs. \<exists>c m. os_ReadFile env w g = Inr c \<and> json_Unmarshal env c = Inr m \<Longrightarrow>
   \<exists>out. pdfFiles_loop env w fs acc = Inr out"
  by (induction fs arbitrary: acc) (auto simp: Let_def)

lemma directories_loop_first_failure:
  assumes "\<forall>g\<in>set pre. \<exists>c m. os_ReadFile env w g = Inr c \<and> json_Unmarshal env c = Inr m"
    and "os_ReadFile env w f = Inr c" and "json_Unmarshal env c = Inl e"
  shows "directories_loop env w (pre @ f # post) acc = Inl e"
  using assms by (induction pre arbitrary: acc) auto

lemma pdfFiles_loop_first_failure:
  assumes "\<forall>g\<in>set pre. \<exists>c m. os_ReadFile env w g = Inr c \<and> json_Unmarshal env c = Inr m"
    and "os_ReadFile env w f = Inr c" and "json_Unmarshal env c = Inl e"
  shows "pdfFiles_loop env w (pre @ f # post) acc = Inl e"
  using assms by (induction pre arbitrary: acc) (auto simp: Let_def)

lemma loops_same_error:
  "directories_loop env w fs a = Inl e \<longleftrightarrow> pdfFiles_loop env w fs b = Inl e"
  by (induction fs arbitrary: a b) (auto simp: Let_def split: sum.splits)

lemma directories_loop_any_failure:
  assumes "f \<in> set fs" and "os_ReadFile env w f = Inr c" and "json_Unmarshal env c = Inl e"
  shows "\<exists>e'. directories_loop env w fs acc = Inl e'"
  using assms by (induction fs arbitrary: acc) (auto split: sum.splits)

section \<open>The sample device, evaluated\<close>

lemmas demo_simps = demo_env_def demo_device_def demo_Walk_def demo_visits_def demo_ReadFile_def
  demo_Stat_def demo_Get_def demo_Do_def demo_metadata_def BaseDir_def

lemma demo_filenames:
  "getMetadataFilenames demo_env demo_device =
     Inr [BaseDir @ ''Notes.metadata'', BaseDir @ ''Report.metadata'', BaseDir @ ''Orphan.metadata'']"
  by (simp add: getMetadataFilenames_def walkFn_def filepath_Ext_def demo_simps)

lemma demo_read_Notes:
  "os_ReadFile demo_env demo_device (BaseDir @ ''Notes.metadata'') = Inr ''CNotes''"
  by (simp add: demo_simps)

lemma demo_read_Report:
  "os_ReadFile demo_env demo_device (BaseDir @ ''Report.metadata'') = Inr ''DReport''"
  by (simp add: demo_simps)

lemma demo_read_Orphan:
  "os_ReadFile demo_env demo_device (BaseDir @ ''Orphan.metadata'') = Inr ''DOrphan''"
  by (simp add: demo_simps)

lemma demo_Unmarshal_env: "json_Unmarshal demo_env = demo_Unmarshal"
  by (simp add: demo_env_def)

lemma demo_all_parse:
  "\<forall>g\<in>set [BaseDir @ ''Notes.metadata'', BaseDir @ ''Report.metadata'', BaseDir @ ''Orphan.metadata''].
     \<exists>c m. os_ReadFile demo_env demo_device g = Inr c \<and> json_Unmarshal demo_env c = Inr m"
  using demo_read_Notes demo_read_Report demo_read_Orphan
  by (simp add: demo_Unmarshal_env)

section \<open>Claims about the scans\<close>

text \<open>
  Claim C4. In a scan in which every metadata file is read and parsed, the collections
  query returns a list that has the entry of a record (the metadata file's path with the
  record's \<open>visibleName\<close>) if and only if the record's type is exactly
  \<open>CollectionType\<close>; any entry of the list under that path carries that
  \<open>visibleName\<close> and comes from a record of that type.
\<close>

theorem GetDirectoriesMetadataFiles_entry_iff_CollectionType:
  assumes walk: "getMetadataFilenames env w = Inr fs"
    and ok: "\<forall>g\<in>set fs. \<exists>c m. os_ReadFile env w g = Inr c \<and> json_Unmarshal env c = Inr m"
    and f: "f \<in> set fs" and c: "os_ReadFile env w f = Inr c"
    and m: "json_Unmarshal env c = Inr m"
  shows "\<exists>out. GetDirectoriesMetadataFiles env w = Inr out \<and>
           (\<lparr>RemarkableFile.Filename = f, RemarkableFile.VisibleName = Metadata.VisibleName m\<rparr> \<in> set out
              \<longleftrightarrow> Type m = ''CollectionType'') \<and>
           (\<forall>x\<in>set out. RemarkableFile.Filename x = f \<longrightarrow>
              RemarkableFile.VisibleName x = Metadata.VisibleName m \<and> Type m = ''CollectionType'')"
proof -
  from directories_loop_total [OF ok] obtain out where
    out: "directories_loop env w fs [] = Inr out" by blast
  have q: "GetDirectoriesMetadataFiles env w = Inr out"
    using walk out by (simp add: GetDirectoriesMetadataFiles_def)
  note S = directories_loop_set [OF out]
  have src: "\<exists>g c' m'. x = \<lparr>RemarkableFile.Filename = g,
                 RemarkableFile.VisibleName = Metadata.VisibleName m'\<rparr> \<and> g \<in> set fs \<and>
               os_ReadFile env w g = Inr c' \<and> json_Unmarshal env c' = Inr m' \<and>
               Type m' = ''CollectionType''" if "x \<in> set out" for x
    using that unfolding S by simp
  have b: "\<forall>x\<in>set out. RemarkableFile.Filename x = f \<longrightarrow>
      RemarkableFile.VisibleName x = Metadata.VisibleName m \<and> Type m = ''CollectionType''"
  proof (intro ballI impI)
    fix x assume x: "x \<in> set out" and fx: "RemarkableFile.Filename x = f"
    from src [OF x] obtain g c' m' where
      xe: "x = \<lparr>RemarkableFile.Filename = g, RemarkableFile.VisibleName = Metadata.VisibleName m'\<rparr>"
      and g: "os_ReadFile env w g = Inr c'" "json_Unmarshal env c' = Inr m'"
        "Type m' = ''CollectionType''"
      by blast
    from xe fx have "g = f" by simp
    with g c m have "m' = m" by simp
    with xe g show "RemarkableFile.VisibleName x = Metadata.VisibleName m \<and> Type m = ''CollectionType''"
      by simp
  qed
  have a: "\<lparr>RemarkableFile.Filename = f, RemarkableFile.VisibleName = Metadata.VisibleName m\<rparr> \<in> set out
        \<longleftrightarrow> Type m = ''CollectionType''"
  proof
    assume "\<lparr>RemarkableFile.Filename = f, RemarkableFile.VisibleName = Metadata.VisibleName m\<rparr> \<in> set out"
    with b show "Type m = ''CollectionType''" by force
  next
    assume "Type m = ''CollectionType''"
    with f c m show "\<lparr>RemarkableFile.Filename = f, RemarkableFile.VisibleName = Metadata.VisibleName m\<rparr> \<in> set out"
      unfolding S by blast
  qed
  from q a b show ?thesis by blast
qed

theorem GetDirectoriesMetadataFiles_entry_iff_CollectionType_witness:
  "\<exists>out. GetDirectoriesMetadataFiles demo_env demo_device = Inr out \<and>
     \<lparr>RemarkableFile.Filename = BaseDir @ ''Notes.metadata'', RemarkableFile.VisibleName = ''Notes''\<rparr>
       \<in> set out \<and>
     \<lparr>RemarkableFile.Filename = BaseDir @ ''Report.metadata'', RemarkableFile.VisibleName = ''Report''\<rparr>
       \<notin> set out"
proof -
  have n: "json_Unmarshal demo_env ''CNotes'' = Inr (demo_metadata ''CollectionType'' ''Notes'')"
    by (simp add: demo_Unmarshal_env)
  have r: "json_Unmarshal demo_env ''DReport'' = Inr (demo_metadata ''DocumentType'' ''Report'')"
    by (simp add: demo_Unmarshal_env)
  from GetDirectoriesMetadataFiles_entry_iff_CollectionType [OF demo_filenames demo_all_parse _ demo_read_Notes n]
  obtain out where out: "GetDirectoriesMetadataFiles demo_env demo_device = Inr out"
    and a: "\<lparr>RemarkableFile.Filename = BaseDir @ ''Notes.metadata'', RemarkableFile.VisibleName = ''Notes''\<rparr>
       \<in> set out"
    by (auto simp: demo_metadata_def)
  from GetDirectoriesMetadataFiles_entry_iff_CollectionType [OF demo_filenames demo_all_parse _ demo_read_Report r] out
  have "\<lparr>RemarkableFile.Filename = BaseDir @ ''Report.metadata'', RemarkableFile.VisibleName = ''Report''\<rparr>
       \<notin> set out"
    by (auto simp: demo_metadata_def)
  with out a show ?thesis by blast
qed

text \<open>
  Claim C3. In a scan in which every metadata file is read and parsed, a record of type
  \<open>DocumentType\<close> in the file \<open>base.metadata\<close> has its entry (the path
  \<open>base.pdf\<close> with the record's \<open>visibleName\<close>) in the result of the documents
  query if and only if \<open>os.Stat\<close> of \<open>base.pdf\<close> does not report that the file
  does not exist, which is the test the code makes for the presence of the content file.
  The query returns a list and no error whether the content file is there or not, and
  when it is not there no entry of the list has the path \<open>base.pdf\<close>.
\<close>

theorem GetPdfFiles_entry_iff_content_present:
  assumes walk: "getMetadataFilenames env w = Inr fs"
    and ok: "\<forall>g\<in>set fs. \<exists>c m. os_ReadFile env w g = Inr c \<and> json_Unmarshal env c = Inr m"
    and f: "f \<in> set fs" and c: "os_ReadFile env w f = Inr c"
    and m: "json_Unmarshal env c = Inr m" and doc: "Type m = ''DocumentType''"
  shows "\<exists>base out. f = base @ ''.metadata'' \<and> GetPdfFiles env w = Inr out \<and>
           (\<lparr>RemarkableFile.Filename = base @ ''.pdf'',
             RemarkableFile.VisibleName = Metadata.VisibleName m\<rparr> \<in> set out
              \<longleftrightarrow> \<not> os_IsNotExist (os_Stat env w (base @ ''.pdf''))) \<and>
           (os_IsNotExist (os_Stat env w (base @ ''.pdf'')) \<longrightarrow>
              (\<forall>x\<in>set out. RemarkableFile.Filename x \<noteq> base @ ''.pdf''))"
proof -
  have ext: "filepath_Ext f = ''.metadata''"
    by (rule getMetadataFilenames_ext [OF walk f])
  from metadata_name_split [OF ext] obtain base where
    base: "f = base @ ''.metadata''" and pdf: "pdfFilename_of f = base @ ''.pdf''" by blast
  from pdfFiles_loop_total [OF ok] obtain out where
    out: "pdfFiles_loop env w fs [] = Inr out" by blast
  have q: "GetPdfFiles env w = Inr out"
    using walk out by (simp add: GetPdfFiles_def)
  note S = pdfFiles_loop_set [OF out]
  have src: "\<exists>g. RemarkableFile.Filename x = pdfFilename_of g \<and> g \<in> set fs \<and>
               \<not> os_IsNotExist (os_Stat env w (pdfFilename_of g))" if "x \<in> set out" for x
    using that unfolding S by auto
  have b: "os_IsNotExist (os_Stat env w (base @ ''.pdf'')) \<longrightarrow>
      (\<forall>x\<in>set out. RemarkableFile.Filename x \<noteq> base @ ''.pdf'')"
  proof (intro impI ballI notI)
    fix x assume ne: "os_IsNotExist (os_Stat env w (base @ ''.pdf''))"
      and x: "x \<in> set out" and fx: "RemarkableFile.Filename x = base @ ''.pdf''"
    from src [OF x] fx obtain g where "pdfFilename_of g = base @ ''.pdf''"
      "\<not> os_IsNotExist (os_Stat env w (pdfFilename_of g))"
      by auto
    with ne show False by simp
  qed
  have a: "\<lparr>RemarkableFile.Filename = base @ ''.pdf'',
             RemarkableFile.VisibleName = Metadata.VisibleName m\<rparr> \<in> set out
        \<longleftrightarrow> \<not> os_IsNotExist (os_Stat env w (base @ ''.pdf''))"
  proof
    assume "\<lparr>RemarkableFile.Filename = base @ ''.pdf'',
             RemarkableFile.VisibleName = Metadata.VisibleName m\<rparr> \<in> set out"
    with b show "\<not> os_IsNotExist (os_Stat env w (base @ ''.pdf''))" by force
  next
    assume "\<not> os_IsNotExist (os_Stat env w (base @ ''.pdf''))"
    with f c m doc pdf show "\<lparr>RemarkableFile.Filename = base @ ''.pdf'',
             RemarkableFile.VisibleName = Metadata.VisibleName m\<rparr> \<in> set out"
      unfolding S by force
  qed
  from base q a b show ?thesis by blast
qed

theorem GetPdfFiles_entry_iff_content_present_witness:
  "\<exists>out. GetPdfFiles demo_env demo_device = Inr out \<and>
     \<lparr>RemarkableFile.Filename = BaseDir @ ''Report.pdf'', RemarkableFile.VisibleName = ''Report''\<rparr>
       \<in> set out \<and>
     \<lparr>RemarkableFile.Filename = BaseDir @ ''Orphan.pdf'', RemarkableFile.VisibleName = ''Orphan''\<rparr>
       \<notin> set out"
proof -
  have r: "json_Unmarshal demo_env ''DReport'' = Inr (demo_metadata ''DocumentType'' ''Report'')"
    by (simp add: demo_Unmarshal_env)
  have o: "json_Unmarshal demo_env ''DOrphan'' = Inr (demo_metadata ''DocumentType'' ''Orphan'')"
    by (simp add: demo_Unmarshal_env)
  have t: "Type (demo_metadata ''DocumentType'' n) = ''DocumentType''" for n
    by (simp add: demo_metadata_def)
  have sr: "\<not> os_IsNotExist (os_Stat demo_env demo_device (BaseDir @ ''Report.pdf''))"
    by (simp add: demo_simps)
  have so: "os_IsNotExist (os_Stat demo_env demo_device (BaseDir @ ''Orphan.pdf''))"
    by (simp add: demo_simps)
  from GetPdfFiles_entry_iff_content_present [OF demo_filenames demo_all_parse _ demo_read_Report r t] sr
  obtain out where out: "GetPdfFiles demo_env demo_device = Inr out"
    and a: "\<lparr>RemarkableFile.Filename = BaseDir @ ''Report.pdf'', RemarkableFile.VisibleName = ''Report''\<rparr>
       \<in> set out"
    by (auto simp: demo_metadata_def)
  from GetPdfFiles_entry_iff_content_present [OF demo_filenames demo_all_parse _ demo_read_Orphan o t] so out
  have "\<lparr>RemarkableFile.Filename = BaseDir @ ''Orphan.pdf'', RemarkableFile.VisibleName = ''Orphan''\<rparr>
       \<notin> set out"
    by (auto simp: demo_metadata_def)
  with out a show ?thesis by blast
qed

text \<open>
  Claim C5. When a metadata file that the walk found is read but does not parse, both
  queries return an error and no list, the same error for both. When every file the walk
  found before it is read and parsed, so that the scan reaches the file, that error is
  the parse error of the file.
\<close>

theorem scan_aborts_on_parse_error:
  assumes walk: "getMetadataFilenames env w = Inr (pre @ f # post)"
    and c: "os_ReadFile env w f = Inr c" and e: "json_Unmarshal env c = Inl e"
  shows "(\<exists>e'. GetDirectoriesMetadataFiles env w = Inl e' \<and> GetPdfFiles env w = Inl e') \<and>
         ((\<forall>g\<in>set pre. \<exists>c' m. os_ReadFile env w g = Inr c' \<and> json_Unmarshal env c' = Inr m) \<longrightarrow>
            GetDirectoriesMetadataFiles env w = Inl e \<and> GetPdfFiles env w = Inl e)"
proof -
  have "f \<in> set (pre @ f # post)" by simp
  from directories_loop_any_failure [OF this c e] obtain e' where
    d: "directories_loop env w (pre @ f # post) [] = Inl e'" by blast
  then have p: "pdfFiles_loop env w (pre @ f # post) [] = Inl e'"
    using loops_same_error [of env w "pre @ f # post" "[]" e' "[]"] by simp
  have A: "\<exists>e'. GetDirectoriesMetadataFiles env w = Inl e' \<and> GetPdfFiles env w = Inl e'"
    using walk d p by (auto simp: GetDirectoriesMetadataFiles_def GetPdfFiles_def)
  have B: "GetDirectoriesMetadataFiles env w = Inl e \<and> GetPdfFiles env w = Inl e"
    if "\<forall>g\<in>set pre. \<exists>c' m. os_ReadFile env w g = Inr c' \<and> json_Unmarshal env c' = Inr m"
    using walk directories_loop_first_failure [OF that c e]
      pdfFiles_loop_first_failure [OF that c e]
    by (simp add: GetDirectoriesMetadataFiles_def GetPdfFiles_def)
  from A B show ?thesis by blast
qed

theorem scan_aborts_on_parse_error_witness:
  "GetDirectoriesMetadataFiles demo_env garbled_device = Inl (ErrOther ''invalid character'') \<and>
   GetPdfFiles demo_env garbled_device = Inl (ErrOther ''invalid character'')"
proof -
  have w: "getMetadataFilenames demo_env garbled_device =
      Inr ([BaseDir @ ''Notes.metadata''] @ (BaseDir @ ''Broken.metadata'') # [BaseDir @ ''Report.metadata''])"
    by (simp add: getMetadataFilenames_def walkFn_def filepath_Ext_def garbled_device_def demo_simps)
  have c: "os_ReadFile demo_env garbled_device (BaseDir @ ''Broken.metadata'') = Inr ''{''"
    by (simp add: garbled_device_def demo_simps)
  have e: "json_Unmarshal demo_env ''{'' = Inl (ErrOther ''invalid character'')"
    by (simp add: demo_Unmarshal_env)
  have p: "\<forall>g\<in>set [BaseDir @ ''Notes.metadata''].
      \<exists>c' m. os_ReadFile demo_env garbled_device g = Inr c' \<and> json_Unmarshal demo_env c' = Inr m"
    by (simp add: garbled_device_def demo_simps)
  from scan_aborts_on_parse_error [OF w c e] p show ?thesis by blast
qed

section \<open>Properties of the inventory and the synchronisation loop\<close>

lemma fileMap_loop_None:
  "fileMap_loop files fileMap n = None \<longleftrightarrow>
     fileMap n = None \<and> n \<notin> RemarkableFile.VisibleName ` set files"
  by (induction files arbitrary: fileMap) auto

lemma createRemarkableFileMap_None:
  "createRemarkableFileMap files n = None \<longleftrightarrow> n \<notin> RemarkableFile.VisibleName ` set files"
  by (simp add: createRemarkableFileMap_def fileMap_loop_None)

lemma Sync_loop_present:
  "pdfFileMap (FileToSync.Filename item) \<noteq> None \<Longrightarrow>
   Sync_loop env pdfFileMap (item # rest) w = Sync_loop env pdfFileMap rest w"
  by simp

lemma Sync_loop_filter:
  "Sync_loop env pdfFileMap files w =
   Sync_loop env pdfFileMap [item \<leftarrow> files. pdfFileMap (FileToSync.Filename item) = None] w"
proof (induction files arbitrary: w)
  case Nil
  show ?case by simp
next
  case (Cons item rest)
  show ?case
  proof (cases "pdfFileMap (FileToSync.Filename item) = None")
    case False
    then show ?thesis using Cons.IH by simp
  next
    case True
    then show ?thesis using Cons.IH
      by (simp split: prod.splits sum.splits exec.splits option.splits)
  qed
qed

lemma Sync_loop_append:
  "Sync_loop env pdfFileMap (xs @ ys) w =
     (case Sync_loop env pdfFileMap xs w of
        (Returns None, ops1, w1) \<Rightarrow>
          (case Sync_loop env pdfFileMap ys w1 of (r, ops2, w2) \<Rightarrow> (r, ops1 @ ops2, w2))
      | (Returns (Some e), ops1, w1) \<Rightarrow> (Returns (Some e), ops1, w1)
      | (Panics msg, ops1, w1) \<Rightarrow> (Panics msg, ops1, w1))"
proof (induction xs arbitrary: w)
  case Nil
  show ?case by (simp split: prod.splits)
next
  case (Cons item rest)
  show ?case
  proof (cases "pdfFileMap (FileToSync.Filename item) = None")
    case False
    then show ?thesis using Cons.IH by simp
  next
    case True
    then show ?thesis using Cons.IH
      by (simp split: prod.splits sum.splits exec.splits option.splits)
  qed
qed

lemma Sync_loop_all_present:
  "\<forall>item\<in>set files. pdfFileMap (FileToSync.Filename item) \<noteq> None \<Longrightarrow>
   Sync_loop env pdfFileMap files w = (Returns None, [], w)"
  by (induction files) auto

lemma Sync_loop_schedule:
  "\<exists>cs. length cs = length [item \<leftarrow> files. pdfFileMap (FileToSync.Filename item) = None] \<and>
     prefix (fst (snd (Sync_loop env pdfFileMap files w)))
       (concat (map (\<lambda>(item, c). [Fetch (Url item), Upload c (FileToSync.Filename item)])
         (zip [item \<leftarrow> files. pdfFileMap (FileToSync.Filename item) = None] cs))) \<and>
     (fst (Sync_loop env pdfFileMap files w) = Returns None \<longrightarrow>
        fst (snd (Sync_loop env pdfFileMap files w)) =
        concat (map (\<lambda>(item, c). [Fetch (Url item), Upload c (FileToSync.Filename item)])
         (zip [item \<leftarrow> files. pdfFileMap (FileToSync.Filename item) = None] cs)))"
  (is "\<exists>cs. ?P files w cs")
proof (induction files arbitrary: w)
  case Nil
  show ?case by simp
next
  case (Cons item rest)
  let ?missing = "[i \<leftarrow> rest. pdfFileMap (FileToSync.Filename i) = None]"
  show ?case
  proof (cases "pdfFileMap (FileToSync.Filename item) = None")
    case False
    with Cons.IH [of w] show ?thesis by simp
  next
    case True
    obtain d w1 where d: "downloadPdfFile env (Url item) w = (d, w1)" by (cases "downloadPdfFile env (Url item) w")
    show ?thesis
    proof (cases d)
      case (Inl e)
      have "?P (item # rest) w ([] # replicate (length ?missing) [])"
        using True d Inl by simp
      then show ?thesis by blast
    next
      case (Inr c)
      obtain u reqs w2 where u: "UploadPdfToTablet env c (FileToSync.Filename item) w1 = (u, reqs, w2)"
        by (cases "UploadPdfToTablet env c (FileToSync.Filename item) w1")
      show ?thesis
      proof (cases "u = Returns None")
        case False
        have "?P (item # rest) w (c # replicate (length ?missing) [])"
          using True d Inr u False by (cases u) (auto split: option.splits)
        then show ?thesis by blast
      next
        case ok: True
        from Cons.IH [of w2] obtain cs where cs: "?P rest w2 cs" by blast
        obtain r ops w3 where rest: "Sync_loop env pdfFileMap rest w2 = (r, ops, w3)"
          by (cases "Sync_loop env pdfFileMap rest w2")
        have "?P (item # rest) w (c # cs)"
          using True d Inr u ok cs rest by simp
        then show ?thesis by blast
      qed
    qed
  qed
qed

text \<open>The loop is the transfer of the requests that the inventory map lacks.\<close>

lemma Sync_loop_is_fetch_then_upload_each:
  "Sync_loop env pdfFileMap files w =
   fetch_then_upload_each env [item \<leftarrow> files. pdfFileMap (FileToSync.Filename item) = None] w"
proof (induction files arbitrary: w)
  case Nil
  show ?case by simp
next
  case (Cons item rest)
  show ?case
  proof (cases "pdfFileMap (FileToSync.Filename item) = None")
    case False
    then show ?thesis using Cons.IH by simp
  next
    case True
    then show ?thesis using Cons.IH
      by (simp split: prod.splits sum.splits exec.splits option.splits)
  qed
qed

lemma Sync_scanned:
  "GetPdfFiles env w = Inr pdfFiles \<Longrightarrow>
   Sync env files w = Sync_loop env (createRemarkableFileMap pdfFiles) files w"
  by (simp add: Sync_def)

lemma Sync_loop_append_ok:
  assumes "Sync_loop env pdfFileMap (xs @ ys) w = (Returns None, ops, w')"
  shows "\<exists>ops1 w1 ops2. Sync_loop env pdfFileMap xs w = (Returns None, ops1, w1) \<and>
           Sync_loop env pdfFileMap ys w1 = (Returns None, ops2, w') \<and> ops = ops1 @ ops2"
  using assms unfolding Sync_loop_append
  by (auto split: prod.splits exec.splits option.splits)

lemma Sync_loop_single_ok:
  assumes "Sync_loop env pdfFileMap [item] w = (Returns None, ops, w')"
    and "pdfFileMap (FileToSync.Filename item) = None"
  shows "\<exists>c. ops = [Fetch (Url item), Upload c (FileToSync.Filename item)]"
  using assms by (auto split: prod.splits sum.splits exec.splits option.splits)

section \<open>Properties of the uploader\<close>

lemma http_NewRequest_upload:
  "http_NewRequest ''POST'' ''http://10.11.99.1/upload'' body =
     (Some \<lparr>Method = ''POST'', URL = ''http://10.11.99.1/upload'', Header = Map.empty, Form = body\<rparr>,
      None)"
proof -
  have m: "validMethod ''POST''"
    by (simp add: validMethod_def isTokenRune_def isLetter_def isDigit_def byte_def)
  have u: "url_Parse ''http://10.11.99.1/upload'' = None"
    by (simp add: url_Parse_def strings_Cut_def stringContainsCTLByte_def getScheme_def
        isLetter_def isDigit_def isHex_def byte_def parseAuthority_def parseHost_def
        validOptionalPort_def hostByteAllowed_def afterLast_def Let_def)
  show ?thesis using m u by (simp add: http_NewRequest_def)
qed

lemmas upload_defs = UploadPdfToTablet_def multipart_NewWriter_def CreateFormFile_def
  part_Write_def part_append_def Writer_Close_def http_NewRequest_upload Header_Set_def
  FormDataContentType_def

lemma UploadPdfToTablet_sent:
  assumes "UploadPdfToTablet env fileContents filename w = (r, reqs, w')"
    and "req \<in> set reqs"
  shows "reqs = [req] \<and>
         Parts (Form req) = [\<lparr>FieldName = ''file'', FileName = filename, Payload = fileContents\<rparr>] \<and>
         Finished (Form req) \<and> WriteErr (Form req) = None \<and>
         Method req = ''POST'' \<and> URL req = ''http://10.11.99.1/upload''"
  using assms unfolding upload_defs
  by (auto simp: Let_def split: option.splits sum.splits prod.splits if_splits)

lemma UploadPdfToTablet_no_fault:
  assumes "fault_CreateFormFile env w = None" "fault_Write env w = None"
    "fault_Close env w = None"
  shows "\<exists>r req w'. UploadPdfToTablet env fileContents filename w = (r, [req], w')"
  using assms unfolding upload_defs
  by (auto simp: Let_def split: option.splits sum.splits prod.splits)

lemma UploadPdfToTablet_returned_errors:
  "fault_CreateFormFile env w = Some e \<Longrightarrow>
     UploadPdfToTablet env fileContents filename w = (Returns (Some e), [], w)"
  "fault_CreateFormFile env w = None \<Longrightarrow> fault_Write env w = Some (n, e) \<Longrightarrow>
     UploadPdfToTablet env fileContents filename w = (Returns (Some e), [], w)"
  "fault_CreateFormFile env w = None \<Longrightarrow> fault_Write env w = None \<Longrightarrow>
   fault_Close env w = Some e \<Longrightarrow>
     UploadPdfToTablet env fileContents filename w = (Returns (Some e), [], w)"
  unfolding upload_defs by (simp_all add: Let_def)

text \<open>The request that the uploader builds when no call on the multipart writer fails.\<close>

lemma UploadPdfToTablet_sends:
  assumes "fault_CreateFormFile env w = None" "fault_Write env w = None"
    "fault_Close env w = None"
  shows "UploadPdfToTablet env fileContents filename w =
     (let req = \<lparr>Method = ''POST'', URL = ''http://10.11.99.1/upload'',
                 Header = [''Content-Type'' \<mapsto> ''multipart/form-data; boundary='' @ rand_Boundary env w,
                           ''Accept'' \<mapsto> ''*/*'', ''Connection'' \<mapsto> ''keep-alive''],
                 Form = \<lparr>Boundary = rand_Boundary env w,
                          Parts = [\<lparr>FieldName = ''file'', FileName = filename,
                                    Payload = fileContents\<rparr>],
                          WriteErr = None, Finished = True\<rparr>\<rparr>
      in case client_Do env w req of
           (Inl e, w') \<Rightarrow> (Returns (Some e), [req], w')
         | (Inr resp, w') \<Rightarrow> (Returns None, [req], w'))"
  using assms unfolding upload_defs
  by (simp add: Let_def split: prod.splits sum.splits)

lemma UploadPdfToTablet_never_panics:
  "\<exists>r reqs w'. UploadPdfToTablet env fileContents filename w = (Returns r, reqs, w')"
proof (cases "fault_CreateFormFile env w")
  case (Some e)
  show ?thesis by (simp add: UploadPdfToTablet_returned_errors(1) [OF Some])
next
  case None
  note c = this
  show ?thesis
  proof (cases "fault_Write env w")
    case (Some ne)
    then obtain n e where ne: "fault_Write env w = Some (n, e)" by (cases ne) auto
    show ?thesis by (simp add: UploadPdfToTablet_returned_errors(2) [OF c ne])
  next
    case None
    note wr = this
    show ?thesis
    proof (cases "fault_Close env w")
      case (Some e)
      show ?thesis by (simp add: UploadPdfToTablet_returned_errors(3) [OF c wr Some])
    next
      case None
      show ?thesis
        unfolding UploadPdfToTablet_sends [OF c wr None]
        by (simp add: Let_def split: prod.splits sum.splits)
    qed
  qed
qed

section \<open>The sample runs, evaluated\<close>

lemma scan_ab: "GetPdfFiles demo_env ab_device =
  Inr [\<lparr>RemarkableFile.Filename = BaseDir @ ''A.pdf'', RemarkableFile.VisibleName = ''A''\<rparr>,
       \<lparr>RemarkableFile.Filename = BaseDir @ ''B.pdf'', RemarkableFile.VisibleName = ''B''\<rparr>]"
  by (simp add: GetPdfFiles_def getMetadataFilenames_def walkFn_def filepath_Ext_def
      pdfFilename_of_def strings_TrimSuffix_def suffix_def ab_device_def demo_simps)

lemmas sync_eval = Sync_def createRemarkableFileMap_def downloadPdfFile_def ioutil_ReadAll_def
  upload_defs demo_request_def unreachable_request_def

lemma demo_env_sel:
  "client_Get demo_env = demo_Get" "client_Do demo_env = demo_Do"
  "rand_Boundary demo_env = (\<lambda>_. ''0123456789abcdef'')"
  "fault_CreateFormFile demo_env = (\<lambda>_. None)" "fault_Write demo_env = (\<lambda>_. None)"
  "fault_Close demo_env = (\<lambda>_. None)"
  by (simp_all add: demo_env_def)

lemma run_ACD:
  "Sync demo_env [demo_request ''A'', demo_request ''C'', demo_request ''D''] ab_device =
     (Returns None,
      [Fetch ''http://host/C'', Upload ''%PDF http://host/C'' ''C'',
       Fetch ''http://host/D'', Upload ''%PDF http://host/D'' ''D''],
      ab_device @ [Document ''C'' True, Document ''D'' True])"
  by (simp add: scan_ab sync_eval demo_env_sel demo_Get_def demo_Do_def)

lemma run_C:
  "Sync demo_env [demo_request ''C''] ab_device =
     (Returns None, [Fetch ''http://host/C'', Upload ''%PDF http://host/C'' ''C''],
      ab_device @ [Document ''C'' True])"
  by (simp add: scan_ab sync_eval demo_env_sel demo_Get_def demo_Do_def)

lemma run_CC:
  "Sync demo_env [demo_request ''C'', demo_request ''C''] ab_device =
     (Returns None,
      [Fetch ''http://host/C'', Upload ''%PDF http://host/C'' ''C'',
       Fetch ''http://host/C'', Upload ''%PDF http://host/C'' ''C''],
      ab_device @ [Document ''C'' True, Document ''C'' True])"
  by (simp add: scan_ab sync_eval demo_env_sel demo_Get_def demo_Do_def)

lemma scan_abcd: "GetPdfFiles demo_env (ab_device @ [Document ''C'' True, Document ''D'' True]) =
  Inr [\<lparr>RemarkableFile.Filename = BaseDir @ ''A.pdf'', RemarkableFile.VisibleName = ''A''\<rparr>,
       \<lparr>RemarkableFile.Filename = BaseDir @ ''B.pdf'', RemarkableFile.VisibleName = ''B''\<rparr>,
       \<lparr>RemarkableFile.Filename = BaseDir @ ''C.pdf'', RemarkableFile.VisibleName = ''C''\<rparr>,
       \<lparr>RemarkableFile.Filename = BaseDir @ ''D.pdf'', RemarkableFile.VisibleName = ''D''\<rparr>]"
  by (simp add: GetPdfFiles_def getMetadataFilenames_def walkFn_def filepath_Ext_def
      pdfFilename_of_def strings_TrimSuffix_def suffix_def ab_device_def demo_simps)

lemma scan_demo:
  "GetPdfFiles demo_env demo_device =
      Inr [\<lparr>RemarkableFile.Filename = BaseDir @ ''Report.pdf'', RemarkableFile.VisibleName = ''Report''\<rparr>]"
  by (simp add: GetPdfFiles_def getMetadataFilenames_def walkFn_def filepath_Ext_def
      pdfFilename_of_def strings_TrimSuffix_def suffix_def demo_simps)

lemma scan_garbled:
  "GetPdfFiles demo_env garbled_device = Inl (ErrOther ''invalid character'')"
  by (simp add: GetPdfFiles_def getMetadataFilenames_def walkFn_def filepath_Ext_def
      pdfFilename_of_def strings_TrimSuffix_def suffix_def garbled_device_def demo_simps)

lemma scan_ab_offline: "GetPdfFiles offline_env ab_device =
  Inr [\<lparr>RemarkableFile.Filename = BaseDir @ ''A.pdf'', RemarkableFile.VisibleName = ''A''\<rparr>,
       \<lparr>RemarkableFile.Filename = BaseDir @ ''B.pdf'', RemarkableFile.VisibleName = ''B''\<rparr>]"
  by (simp add: GetPdfFiles_def getMetadataFilenames_def walkFn_def filepath_Ext_def
      pdfFilename_of_def strings_TrimSuffix_def suffix_def ab_device_def offline_env_def demo_simps)

lemma offline_env_sel:
  "client_Get offline_env = demo_Get"
  "client_Do offline_env = (\<lambda>w req. (Inl (ErrOther ''connection refused''), w))"
  "rand_Boundary offline_env = (\<lambda>_. ''0123456789abcdef'')"
  "fault_CreateFormFile offline_env = (\<lambda>_. None)" "fault_Write offline_env = (\<lambda>_. None)"
  "fault_Close offline_env = (\<lambda>_. None)"
  by (simp_all add: offline_env_def demo_env_def)

lemma run_nothing_offline:
  "Sync offline_env [demo_request ''A''] ab_device = (Returns None, [], ab_device)"
  by (simp add: scan_ab_offline sync_eval)

section \<open>Claims about synchronisation\<close>

text \<open>
  Claim C1. Let the documents scan return the inventory \<open>pdfFiles\<close>. Then \<open>Sync\<close> is, in
  its result, in the calls it makes and in the state it leaves, the transfer of the
  requests whose name is not a display name of the inventory, in the order of the request
  list: each of them is fetched from its URL, and the bytes fetched are uploaded under the
  request's name, in the state the fetch left; a request whose name is in the inventory
  adds no call and no effect. The calls are always a prefix of fetch then upload over
  those requests, and the whole sequence when \<open>Sync\<close> returns nil.
\<close>

theorem Sync_fetches_and_uploads_missing_in_order:
  assumes scan: "GetPdfFiles env w = Inr pdfFiles"
  shows "Sync env files w =
           fetch_then_upload_each env
             [item \<leftarrow> files.
                FileToSync.Filename item \<notin> RemarkableFile.VisibleName ` set pdfFiles] w \<and>
         (\<exists>cs. length cs =
             length [item \<leftarrow> files.
                      FileToSync.Filename item \<notin> RemarkableFile.VisibleName ` set pdfFiles] \<and>
           prefix (fst (snd (Sync env files w)))
             (concat (map (\<lambda>(item, c). [Fetch (Url item), Upload c (FileToSync.Filename item)])
                (zip [item \<leftarrow> files.
                        FileToSync.Filename item \<notin> RemarkableFile.VisibleName ` set pdfFiles] cs))) \<and>
           (fst (Sync env files w) = Returns None \<longrightarrow>
              fst (snd (Sync env files w)) =
              concat (map (\<lambda>(item, c). [Fetch (Url item), Upload c (FileToSync.Filename item)])
                (zip [item \<leftarrow> files.
                        FileToSync.Filename item \<notin> RemarkableFile.VisibleName ` set pdfFiles] cs))))"
proof -
  have a: "Sync env files w =
           fetch_then_upload_each env
             [item \<leftarrow> files.
                FileToSync.Filename item \<notin> RemarkableFile.VisibleName ` set pdfFiles] w"
    using Sync_loop_is_fetch_then_upload_each [of env "createRemarkableFileMap pdfFiles" files w]
    by (simp add: Sync_scanned [OF scan] createRemarkableFileMap_None)
  have b: "\<exists>cs. length cs =
             length [item \<leftarrow> files.
                      FileToSync.Filename item \<notin> RemarkableFile.VisibleName ` set pdfFiles] \<and>
           prefix (fst (snd (Sync env files w)))
             (concat (map (\<lambda>(item, c). [Fetch (Url item), Upload c (FileToSync.Filename item)])
                (zip [item \<leftarrow> files.
                        FileToSync.Filename item \<notin> RemarkableFile.VisibleName ` set pdfFiles] cs))) \<and>
           (fst (Sync env files w) = Returns None \<longrightarrow>
              fst (snd (Sync env files w)) =
              concat (map (\<lambda>(item, c). [Fetch (Url item), Upload c (FileToSync.Filename item)])
                (zip [item \<leftarrow> files.
                        FileToSync.Filename item \<notin> RemarkableFile.VisibleName ` set pdfFiles] cs)))"
    using Sync_loop_schedule [where files = files and pdfFileMap = "createRemarkableFileMap pdfFiles"
      and env = env and w = w]
    unfolding Sync_scanned [OF scan] createRemarkableFileMap_None .
  from a b show ?thesis by (rule conjI)
qed

theorem Sync_fetches_and_uploads_missing_in_order_witness:
  "Sync demo_env [demo_request ''A'', demo_request ''C'', demo_request ''D''] ab_device =
     (Returns None,
      [Fetch ''http://host/C'', Upload ''%PDF http://host/C'' ''C'',
       Fetch ''http://host/D'', Upload ''%PDF http://host/D'' ''D''],
      ab_device @ [Document ''C'' True, Document ''D'' True]) \<and>
   UploadPdfToTablet demo_env ''%PDF http://host/C'' ''C'' ab_device =
     (Returns None,
      [\<lparr>Method = ''POST'', URL = ''http://10.11.99.1/upload'',
        Header = [''Content-Type'' \<mapsto> ''multipart/form-data; boundary=0123456789abcdef'',
                  ''Accept'' \<mapsto> ''*/*'', ''Connection'' \<mapsto> ''keep-alive''],
        Form = \<lparr>Boundary = ''0123456789abcdef'',
                 Parts = [\<lparr>FieldName = ''file'', FileName = ''C'',
                           Payload = ''%PDF http://host/C''\<rparr>],
                 WriteErr = None, Finished = True\<rparr>\<rparr>],
      ab_device @ [Document ''C'' True])"
proof -
  have missing: "[item \<leftarrow> [demo_request ''A'', demo_request ''C'', demo_request ''D''].
      FileToSync.Filename item \<notin> RemarkableFile.VisibleName `
        set [\<lparr>RemarkableFile.Filename = BaseDir @ ''A.pdf'', RemarkableFile.VisibleName = ''A''\<rparr>,
             \<lparr>RemarkableFile.Filename = BaseDir @ ''B.pdf'', RemarkableFile.VisibleName = ''B''\<rparr>]] =
      [demo_request ''C'', demo_request ''D'']"
    by (simp add: demo_request_def)
  have each: "fetch_then_upload_each demo_env [demo_request ''C'', demo_request ''D''] ab_device =
     (Returns None,
      [Fetch ''http://host/C'', Upload ''%PDF http://host/C'' ''C'',
       Fetch ''http://host/D'', Upload ''%PDF http://host/D'' ''D''],
      ab_device @ [Document ''C'' True, Document ''D'' True])"
    by (simp add: downloadPdfFile_def ioutil_ReadAll_def upload_defs demo_request_def
        demo_env_sel demo_Get_def demo_Do_def)
  have up: "UploadPdfToTablet demo_env ''%PDF http://host/C'' ''C'' ab_device =
     (Returns None,
      [\<lparr>Method = ''POST'', URL = ''http://10.11.99.1/upload'',
        Header = [''Content-Type'' \<mapsto> ''multipart/form-data; boundary=0123456789abcdef'',
                  ''Accept'' \<mapsto> ''*/*'', ''Connection'' \<mapsto> ''keep-alive''],
        Form = \<lparr>Boundary = ''0123456789abcdef'',
                 Parts = [\<lparr>FieldName = ''file'', FileName = ''C'',
                           Payload = ''%PDF http://host/C''\<rparr>],
                 WriteErr = None, Finished = True\<rparr>\<rparr>],
      ab_device @ [Document ''C'' True])"
    by (simp add: upload_defs demo_env_sel demo_Do_def)
  from Sync_fetches_and_uploads_missing_in_order [OF scan_ab, of "[demo_request ''A'', demo_request ''C'', demo_request ''D'']",
      THEN conjunct1]
  have "Sync demo_env [demo_request ''A'', demo_request ''C'', demo_request ''D''] ab_device =
     fetch_then_upload_each demo_env [demo_request ''C'', demo_request ''D''] ab_device"
    unfolding missing .
  with each up show ?thesis by simp
qed

text \<open>
  Claim C2. Suppose the requests before \<open>item\<close> were processed without error, \<open>item\<close>
  is missing from the inventory, and its fetch returns the error \<open>e\<close>, or its fetch
  succeeds and its upload returns the error \<open>e\<close>. Then \<open>Sync\<close> returns \<open>e\<close>, the last
  call it made is the failing one, and the state it leaves is the state right after that
  call, whatever requests follow \<open>item\<close> in the list.
\<close>

theorem Sync_stops_at_first_failure:
  assumes scan: "GetPdfFiles env w = Inr pdfFiles"
    and reach: "Sync env pre w = (Returns None, ops1, w1)"
    and miss: "FileToSync.Filename item \<notin> RemarkableFile.VisibleName ` set pdfFiles"
    and fail: "downloadPdfFile env (Url item) w1 = (Inl e, w2) \<and> ops2 = [Fetch (Url item)] \<or>
               (\<exists>c wm reqs. downloadPdfFile env (Url item) w1 = (Inr c, wm) \<and>
                  UploadPdfToTablet env c (FileToSync.Filename item) wm = (Returns (Some e), reqs, w2) \<and>
                  ops2 = [Fetch (Url item), Upload c (FileToSync.Filename item)])"
  shows "Sync env (pre @ item # post) w = (Returns (Some e), ops1 @ ops2, w2)"
proof -
  let ?m = "createRemarkableFileMap pdfFiles"
  have pre: "Sync_loop env ?m pre w = (Returns None, ops1, w1)"
    using reach by (simp add: Sync_scanned [OF scan])
  have miss': "?m (FileToSync.Filename item) = None"
    using miss by (simp add: createRemarkableFileMap_None)
  have "Sync_loop env ?m (item # post) w1 = (Returns (Some e), ops2, w2)"
    using fail miss' by auto
  with pre have "Sync_loop env ?m (pre @ item # post) w = (Returns (Some e), ops1 @ ops2, w2)"
    by (simp add: Sync_loop_append)
  then show ?thesis by (simp add: Sync_scanned [OF scan])
qed

theorem Sync_stops_at_first_failure_witness:
  "Sync demo_env [demo_request ''C'', unreachable_request ''D'', demo_request ''E''] ab_device =
     (Returns (Some (ErrOther ''unsupported protocol scheme'')),
      [Fetch ''http://host/C'', Upload ''%PDF http://host/C'' ''C'', Fetch ''ftp://host/D''],
      ab_device @ [Document ''C'' True]) \<and>
   Sync offline_env [demo_request ''A'', demo_request ''C'', demo_request ''D''] ab_device =
     (Returns (Some (ErrOther ''connection refused'')),
      [Fetch ''http://host/C'', Upload ''%PDF http://host/C'' ''C''], ab_device)"
proof -
  have miss: "FileToSync.Filename (unreachable_request ''D'') \<notin> RemarkableFile.VisibleName `
        set [\<lparr>RemarkableFile.Filename = BaseDir @ ''A.pdf'', RemarkableFile.VisibleName = ''A''\<rparr>,
             \<lparr>RemarkableFile.Filename = BaseDir @ ''B.pdf'', RemarkableFile.VisibleName = ''B''\<rparr>]"
    by (simp add: unreachable_request_def)
  have fail: "downloadPdfFile demo_env (Url (unreachable_request ''D'')) (ab_device @ [Document ''C'' True]) =
        (Inl (ErrOther ''unsupported protocol scheme''), ab_device @ [Document ''C'' True]) \<and>
      [Fetch ''ftp://host/D''] = [Fetch (Url (unreachable_request ''D''))] \<or>
      (\<exists>c wm reqs. downloadPdfFile demo_env (Url (unreachable_request ''D'')) (ab_device @ [Document ''C'' True]) = (Inr c, wm) \<and>
         UploadPdfToTablet demo_env c (FileToSync.Filename (unreachable_request ''D'')) wm =
           (Returns (Some (ErrOther ''unsupported protocol scheme'')), reqs, ab_device @ [Document ''C'' True]) \<and>
         [Fetch ''ftp://host/D''] = [Fetch (Url (unreachable_request ''D'')), Upload c (FileToSync.Filename (unreachable_request ''D''))])"
    by (simp add: downloadPdfFile_def unreachable_request_def demo_env_sel demo_Get_def)
  have first: "Sync demo_env [demo_request ''C'', unreachable_request ''D'', demo_request ''E''] ab_device =
     (Returns (Some (ErrOther ''unsupported protocol scheme'')),
      [Fetch ''http://host/C'', Upload ''%PDF http://host/C'' ''C'', Fetch ''ftp://host/D''],
      ab_device @ [Document ''C'' True])"
    using Sync_stops_at_first_failure [OF scan_ab run_C miss fail, of "[demo_request ''E'']"] by simp
  have miss2: "FileToSync.Filename (demo_request ''C'') \<notin> RemarkableFile.VisibleName `
        set [\<lparr>RemarkableFile.Filename = BaseDir @ ''A.pdf'', RemarkableFile.VisibleName = ''A''\<rparr>,
             \<lparr>RemarkableFile.Filename = BaseDir @ ''B.pdf'', RemarkableFile.VisibleName = ''B''\<rparr>]"
    by (simp add: demo_request_def)
  have d: "downloadPdfFile offline_env (Url (demo_request ''C'')) ab_device =
      (Inr ''%PDF http://host/C'', ab_device)"
    by (simp add: downloadPdfFile_def ioutil_ReadAll_def demo_request_def offline_env_sel demo_Get_def)
  have u: "\<exists>reqs. UploadPdfToTablet offline_env ''%PDF http://host/C'' (FileToSync.Filename (demo_request ''C'')) ab_device =
      (Returns (Some (ErrOther ''connection refused'')), reqs, ab_device)"
    by (simp add: upload_defs demo_request_def offline_env_sel)
  have fail2: "downloadPdfFile offline_env (Url (demo_request ''C'')) ab_device =
        (Inl (ErrOther ''connection refused''), ab_device) \<and>
      [Fetch ''http://host/C'', Upload ''%PDF http://host/C'' ''C''] = [Fetch (Url (demo_request ''C''))] \<or>
      (\<exists>c wm reqs. downloadPdfFile offline_env (Url (demo_request ''C'')) ab_device = (Inr c, wm) \<and>
         UploadPdfToTablet offline_env c (FileToSync.Filename (demo_request ''C'')) wm =
           (Returns (Some (ErrOther ''connection refused'')), reqs, ab_device) \<and>
         [Fetch ''http://host/C'', Upload ''%PDF http://host/C'' ''C''] =
           [Fetch (Url (demo_request ''C'')), Upload c (FileToSync.Filename (demo_request ''C''))])"
  proof -
    from u obtain reqs where "UploadPdfToTablet offline_env ''%PDF http://host/C'' (FileToSync.Filename (demo_request ''C'')) ab_device =
      (Returns (Some (ErrOther ''connection refused'')), reqs, ab_device)" by blast
    moreover have "[Fetch ''http://host/C'', Upload ''%PDF http://host/C'' ''C''] =
           [Fetch (Url (demo_request ''C'')), Upload ''%PDF http://host/C'' (FileToSync.Filename (demo_request ''C''))]"
      by (simp add: demo_request_def)
    ultimately show ?thesis using d by blast
  qed
  have second: "Sync offline_env [demo_request ''A'', demo_request ''C'', demo_request ''D''] ab_device =
     (Returns (Some (ErrOther ''connection refused'')),
      [Fetch ''http://host/C'', Upload ''%PDF http://host/C'' ''C''], ab_device)"
    using Sync_stops_at_first_failure [OF scan_ab_offline run_nothing_offline miss2 fail2, of "[demo_request ''D'']"] by simp
  from first second show ?thesis by (intro conjI)
qed

text \<open>
  Claim C6. Two requests \<open>a\<close> and \<open>b\<close> carry the same name, which is not in the inventory
  when the batch starts. If the batch runs through \<open>b\<close> without error, both were fetched
  and both were uploaded under that name, \<open>a\<close> first; the calls for the requests after
  \<open>b\<close> only follow these.
\<close>

theorem Sync_duplicate_names_both_uploaded:
  assumes scan: "GetPdfFiles env w = Inr pdfFiles"
    and absent: "name \<notin> RemarkableFile.VisibleName ` set pdfFiles"
    and a: "FileToSync.Filename a = name" and b: "FileToSync.Filename b = name"
    and run: "Sync env (xs @ a # ys @ [b]) w = (Returns None, ops, w1)"
  shows "(\<exists>ops1 ops2 ca cb.
            ops = ops1 @ [Fetch (Url a), Upload ca name] @ ops2 @ [Fetch (Url b), Upload cb name]) \<and>
         (\<exists>r rest w'. Sync env (xs @ a # ys @ b # zs) w = (r, ops @ rest, w'))"
proof -
  let ?m = "createRemarkableFileMap pdfFiles"
  have ma: "?m (FileToSync.Filename a) = None" and mb: "?m (FileToSync.Filename b) = None"
    using absent a b by (simp_all add: createRemarkableFileMap_None)
  have run': "Sync_loop env ?m (xs @ ([a] @ (ys @ [b]))) w = (Returns None, ops, w1)"
    using run by (simp add: Sync_scanned [OF scan])
  from Sync_loop_append_ok [OF run'] obtain o1 wa t1 where
    "Sync_loop env ?m ([a] @ (ys @ [b])) wa = (Returns None, t1, w1)" and o: "ops = o1 @ t1"
    by blast
  from Sync_loop_append_ok [OF this(1)] obtain oa wb t2 where
    sa: "Sync_loop env ?m [a] wa = (Returns None, oa, wb)"
    and "Sync_loop env ?m (ys @ [b]) wb = (Returns None, t2, w1)" and t1: "t1 = oa @ t2"
    by blast
  from Sync_loop_append_ok [OF this(2)] obtain o2 wc ob where
    sb: "Sync_loop env ?m [b] wc = (Returns None, ob, w1)" and t2: "t2 = o2 @ ob"
    by blast
  from Sync_loop_single_ok [OF sa ma] obtain ca where oa: "oa = [Fetch (Url a), Upload ca name]"
    using a by auto
  from Sync_loop_single_ok [OF sb mb] obtain cb where ob: "ob = [Fetch (Url b), Upload cb name]"
    using b by auto
  have first: "\<exists>ops1 ops2 ca cb.
      ops = ops1 @ [Fetch (Url a), Upload ca name] @ ops2 @ [Fetch (Url b), Upload cb name]"
    using o t1 t2 oa ob by blast
  obtain r rest w' where zs: "Sync_loop env ?m zs w1 = (r, rest, w')"
    by (cases "Sync_loop env ?m zs w1")
  have "xs @ a # ys @ b # zs = (xs @ a # ys @ [b]) @ zs" by simp
  then have "Sync env (xs @ a # ys @ b # zs) w = (r, ops @ rest, w')"
    using run zs Sync_loop_append [of env ?m "xs @ a # ys @ [b]" zs w]
    by (simp add: Sync_scanned [OF scan])
  with first show ?thesis by blast
qed

theorem Sync_duplicate_names_both_uploaded_witness:
  "Sync demo_env [demo_request ''C'', demo_request ''C''] ab_device =
     (Returns None,
      [Fetch ''http://host/C'', Upload ''%PDF http://host/C'' ''C'',
       Fetch ''http://host/C'', Upload ''%PDF http://host/C'' ''C''],
      ab_device @ [Document ''C'' True, Document ''C'' True]) \<and>
   (\<exists>ops1 ops2 ca cb.
     [Fetch ''http://host/C'', Upload ''%PDF http://host/C'' ''C'',
      Fetch ''http://host/C'', Upload ''%PDF http://host/C'' ''C''] =
       ops1 @ [Fetch (Url (demo_request ''C'')), Upload ca ''C''] @ ops2 @
       [Fetch (Url (demo_request ''C'')), Upload cb ''C''])"
proof -
  have absent: "''C'' \<notin> RemarkableFile.VisibleName `
        set [\<lparr>RemarkableFile.Filename = BaseDir @ ''A.pdf'', RemarkableFile.VisibleName = ''A''\<rparr>,
             \<lparr>RemarkableFile.Filename = BaseDir @ ''B.pdf'', RemarkableFile.VisibleName = ''B''\<rparr>]"
    by simp
  have n: "FileToSync.Filename (demo_request ''C'') = ''C''" by (simp add: demo_request_def)
  have run: "Sync demo_env ([] @ demo_request ''C'' # [] @ [demo_request ''C'']) ab_device =
     (Returns None,
      [Fetch ''http://host/C'', Upload ''%PDF http://host/C'' ''C'',
       Fetch ''http://host/C'', Upload ''%PDF http://host/C'' ''C''],
      ab_device @ [Document ''C'' True, Document ''C'' True])"
    using run_CC by simp
  note Sync_duplicate_names_both_uploaded [OF scan_ab absent n n run, of "[]", THEN conjunct1]
  with run_CC show ?thesis by (intro conjI)
qed

text \<open>
  Claim C9. A first run of \<open>Sync\<close> leaves the state \<open>w1\<close>, and a second run with the same
  request list starts in \<open>w1\<close>, where the documents scan returns \<open>pdfFiles\<close>. The second
  run is the run of the requests whose name is not in that inventory: a request whose
  name is in it adds no call, no effect and no error, and no upload under its name is
  made. When every request's name is in the inventory the second run makes no call at
  all and returns nil.
\<close>

theorem Sync_second_run_skips_present:
  assumes first: "Sync env files w0 = (r1, ops1, w1)"
    and scan: "GetPdfFiles env w1 = Inr pdfFiles"
  shows "Sync env files w1 =
           Sync env [item \<leftarrow> files.
                      FileToSync.Filename item \<notin> RemarkableFile.VisibleName ` set pdfFiles] w1 \<and>
         (\<forall>item\<in>set files. FileToSync.Filename item \<in> RemarkableFile.VisibleName ` set pdfFiles \<longrightarrow>
            (\<forall>c. Upload c (FileToSync.Filename item) \<notin> set (fst (snd (Sync env files w1))))) \<and>
         ((\<forall>item\<in>set files. FileToSync.Filename item \<in> RemarkableFile.VisibleName ` set pdfFiles) \<longrightarrow>
            Sync env files w1 = (Returns None, [], w1))"
proof -
  let ?m = "createRemarkableFileMap pdfFiles"
  let ?missing = "[item \<leftarrow> files.
                      FileToSync.Filename item \<notin> RemarkableFile.VisibleName ` set pdfFiles]"
  have A: "Sync env files w1 = Sync env ?missing w1"
    using Sync_loop_filter [of env ?m files w1]
    by (simp add: Sync_scanned [OF scan] createRemarkableFileMap_None)
  from Sync_loop_schedule [where files = files and pdfFileMap = ?m and env = env and w = w1]
  obtain cs where
    pre: "prefix (fst (snd (Sync env files w1)))
       (concat (map (\<lambda>(item, c). [Fetch (Url item), Upload c (FileToSync.Filename item)])
          (zip ?missing cs)))"
    unfolding Sync_scanned [OF scan] createRemarkableFileMap_None by blast
  have B: "\<forall>c. Upload c (FileToSync.Filename item) \<notin> set (fst (snd (Sync env files w1)))"
    if "FileToSync.Filename item \<in> RemarkableFile.VisibleName ` set pdfFiles" for item
  proof (intro allI notI)
    fix c assume "Upload c (FileToSync.Filename item) \<in> set (fst (snd (Sync env files w1)))"
    with pre have "Upload c (FileToSync.Filename item) \<in>
        set (concat (map (\<lambda>(item, c). [Fetch (Url item), Upload c (FileToSync.Filename item)])
          (zip ?missing cs)))"
      using set_mono_prefix by blast
    then obtain i c' where "(i, c') \<in> set (zip ?missing cs)"
      "FileToSync.Filename i = FileToSync.Filename item"
      by auto
    then have "i \<in> set ?missing" "FileToSync.Filename i = FileToSync.Filename item"
      by (auto dest: set_zip_leftD)
    with that show False by simp
  qed
  have C: "Sync env files w1 = (Returns None, [], w1)"
    if "\<forall>item\<in>set files. FileToSync.Filename item \<in> RemarkableFile.VisibleName ` set pdfFiles"
    using that Sync_loop_all_present [of files ?m env w1]
    by (simp add: Sync_scanned [OF scan] createRemarkableFileMap_None)
  from A B C show ?thesis by blast
qed

theorem Sync_second_run_skips_present_witness:
  "Sync demo_env [demo_request ''A'', demo_request ''C'', demo_request ''D'']
     (snd (snd (Sync demo_env [demo_request ''A'', demo_request ''C'', demo_request ''D''] ab_device))) =
   (Returns None, [], ab_device @ [Document ''C'' True, Document ''D'' True])"
proof -
  have present: "\<forall>item\<in>set [demo_request ''A'', demo_request ''C'', demo_request ''D''].
      FileToSync.Filename item \<in> RemarkableFile.VisibleName `
        set [\<lparr>RemarkableFile.Filename = BaseDir @ ''A.pdf'', RemarkableFile.VisibleName = ''A''\<rparr>,
       \<lparr>RemarkableFile.Filename = BaseDir @ ''B.pdf'', RemarkableFile.VisibleName = ''B''\<rparr>,
       \<lparr>RemarkableFile.Filename = BaseDir @ ''C.pdf'', RemarkableFile.VisibleName = ''C''\<rparr>,
       \<lparr>RemarkableFile.Filename = BaseDir @ ''D.pdf'', RemarkableFile.VisibleName = ''D''\<rparr>]"
    by (simp add: demo_request_def)
  have w1: "snd (snd (Sync demo_env [demo_request ''A'', demo_request ''C'', demo_request ''D''] ab_device))
      = ab_device @ [Document ''C'' True, Document ''D'' True]"
    by (simp add: run_ACD)
  note Sync_second_run_skips_present [OF run_ACD scan_abcd, THEN conjunct2, THEN conjunct2, THEN mp, OF present]
  then show ?thesis unfolding w1 .
qed

text \<open>
  Claim C10. For the empty request list \<open>Sync\<close> makes no fetch and no upload and leaves
  the state as it was; it returns nil when the documents scan succeeds and the scan's
  error when the scan fails.
\<close>

theorem Sync_empty_request_list:
  "fst (snd (Sync env [] w)) = [] \<and> snd (snd (Sync env [] w)) = w \<and>
   (\<forall>pdfFiles. GetPdfFiles env w = Inr pdfFiles \<longrightarrow> fst (Sync env [] w) = Returns None) \<and>
   (\<forall>e. GetPdfFiles env w = Inl e \<longrightarrow> fst (Sync env [] w) = Returns (Some e))"
  by (simp add: Sync_def split: sum.splits)

theorem Sync_empty_request_list_witness:
  "fst (Sync demo_env [] demo_device) = Returns None \<and>
   fst (snd (Sync demo_env [] demo_device)) = [] \<and>
   snd (snd (Sync demo_env [] demo_device)) = demo_device \<and>
   fst (Sync demo_env [] garbled_device) = Returns (Some (ErrOther ''invalid character''))"
proof -
  note t = Sync_empty_request_list [of demo_env demo_device]
  from t have a: "fst (snd (Sync demo_env [] demo_device)) = []"
    and b: "snd (snd (Sync demo_env [] demo_device)) = demo_device"
    and c: "\<forall>pdfFiles. GetPdfFiles demo_env demo_device = Inr pdfFiles \<longrightarrow>
              fst (Sync demo_env [] demo_device) = Returns None"
    by blast+
  from c scan_demo have ok: "fst (Sync demo_env [] demo_device) = Returns None" by blast
  from Sync_empty_request_list [of demo_env garbled_device] have
    "\<forall>e. GetPdfFiles demo_env garbled_device = Inl e \<longrightarrow>
        fst (Sync demo_env [] garbled_device) = Returns (Some e)"
    by blast
  with scan_garbled have "fst (Sync demo_env [] garbled_device) = Returns (Some (ErrOther ''invalid character''))"
    by blast
  with ok a b show ?thesis by (intro conjI)
qed

section \<open>Claims about the uploader\<close>

text \<open>
  Claim C8. Every request that \<open>UploadPdfToTablet\<close> hands to the HTTP client is a POST
  to the upload endpoint whose finished form has exactly one part: the field \<open>file\<close>,
  with the given filename and with the given bytes, all of them and nothing else, as its
  payload. The call sends at most one request, and exactly one when no call on the
  multipart writer fails.
\<close>

theorem UploadPdfToTablet_form_carries_bytes:
  assumes "UploadPdfToTablet env fileContents filename w = (r, reqs, w')"
  shows "(\<forall>req\<in>set reqs.
            Parts (Form req) =
              [\<lparr>FieldName = ''file'', FileName = filename, Payload = fileContents\<rparr>] \<and>
            Finished (Form req) \<and> Method req = ''POST'' \<and> URL req = ''http://10.11.99.1/upload'') \<and>
         length reqs \<le> 1 \<and>
         (fault_CreateFormFile env w = None \<and> fault_Write env w = None \<and>
          fault_Close env w = None \<longrightarrow> length reqs = 1)"
proof -
  have a: "\<forall>req\<in>set reqs.
            Parts (Form req) =
              [\<lparr>FieldName = ''file'', FileName = filename, Payload = fileContents\<rparr>] \<and>
            Finished (Form req) \<and> Method req = ''POST'' \<and> URL req = ''http://10.11.99.1/upload''"
    using UploadPdfToTablet_sent [OF assms] by blast
  have b: "length reqs \<le> 1"
  proof (cases reqs)
    case Nil
    then show ?thesis by simp
  next
    case (Cons q qs)
    with UploadPdfToTablet_sent [OF assms, of q] show ?thesis by simp
  qed
  have c: "length reqs = 1"
    if "fault_CreateFormFile env w = None \<and> fault_Write env w = None \<and>
          fault_Close env w = None"
    using UploadPdfToTablet_no_fault [of env w fileContents filename] that assms by auto
  from a b c show ?thesis by blast
qed

theorem UploadPdfToTablet_form_carries_bytes_witness:
  "\<exists>r req w'. UploadPdfToTablet demo_env ''%PDF'' ''a.pdf'' demo_device = (r, [req], w') \<and>
     Parts (Form req) = [\<lparr>FieldName = ''file'', FileName = ''a.pdf'', Payload = ''%PDF''\<rparr>]"
proof -
  obtain r reqs w' where u: "UploadPdfToTablet demo_env ''%PDF'' ''a.pdf'' demo_device = (r, reqs, w')"
    by (cases "UploadPdfToTablet demo_env ''%PDF'' ''a.pdf'' demo_device")
  have nf: "fault_CreateFormFile demo_env demo_device = None \<and> fault_Write demo_env demo_device = None \<and>
          fault_Close demo_env demo_device = None"
    by (simp add: demo_env_def)
  from UploadPdfToTablet_form_carries_bytes [OF u] nf have len: "length reqs = 1"
    and all: "\<forall>req\<in>set reqs. Parts (Form req) =
        [\<lparr>FieldName = ''file'', FileName = ''a.pdf'', Payload = ''%PDF''\<rparr>]"
    by auto
  from len obtain req where "reqs = [req]" by (cases reqs) auto
  with u all show ?thesis by auto
qed

text \<open>
  Claim C7. For all bytes and every filename \<open>UploadPdfToTablet\<close> returns and never
  panics. A failure to build the multipart body (of \<open>CreateFormFile\<close>, of the write of
  the bytes, or of \<open>Close\<close>) is returned as the error of the call, with no request sent.
  Constructing the POST request from the fixed method and URL does not fail, so the nil
  request that \<open>req.Header.Set\<close> would meet before the error check never arises. When
  the body is built, the request is sent, and a failure to send it is returned as the
  error of the call.
\<close>

theorem UploadPdfToTablet_returns_every_failure:
  "(\<exists>r reqs w'. UploadPdfToTablet env fileContents filename w = (Returns r, reqs, w')) \<and>
   (\<forall>e. fault_CreateFormFile env w = Some e \<longrightarrow>
      UploadPdfToTablet env fileContents filename w = (Returns (Some e), [], w)) \<and>
   (\<forall>n e. fault_CreateFormFile env w = None \<and> fault_Write env w = Some (n, e) \<longrightarrow>
      UploadPdfToTablet env fileContents filename w = (Returns (Some e), [], w)) \<and>
   (\<forall>e. fault_CreateFormFile env w = None \<and> fault_Write env w = None \<and>
        fault_Close env w = Some e \<longrightarrow>
      UploadPdfToTablet env fileContents filename w = (Returns (Some e), [], w)) \<and>
   (\<forall>body. \<exists>req. http_NewRequest ''POST'' ''http://10.11.99.1/upload'' body = (Some req, None)) \<and>
   (fault_CreateFormFile env w = None \<and> fault_Write env w = None \<and> fault_Close env w = None \<longrightarrow>
      (\<exists>req. Method req = ''POST'' \<and> URL req = ''http://10.11.99.1/upload'' \<and>
         Parts (Form req) =
           [\<lparr>FieldName = ''file'', FileName = filename, Payload = fileContents\<rparr>] \<and>
         (\<forall>e w'. client_Do env w req = (Inl e, w') \<longrightarrow>
            UploadPdfToTablet env fileContents filename w = (Returns (Some e), [req], w')) \<and>
         (\<forall>resp w'. client_Do env w req = (Inr resp, w') \<longrightarrow>
            UploadPdfToTablet env fileContents filename w = (Returns None, [req], w'))))"
proof -
  have a: "\<exists>r reqs w'. UploadPdfToTablet env fileContents filename w = (Returns r, reqs, w')"
    by (rule UploadPdfToTablet_never_panics)
  have b: "\<forall>e. fault_CreateFormFile env w = Some e \<longrightarrow>
      UploadPdfToTablet env fileContents filename w = (Returns (Some e), [], w)"
    by (simp add: UploadPdfToTablet_returned_errors(1))
  have c: "\<forall>n e. fault_CreateFormFile env w = None \<and> fault_Write env w = Some (n, e) \<longrightarrow>
      UploadPdfToTablet env fileContents filename w = (Returns (Some e), [], w)"
    by (simp add: UploadPdfToTablet_returned_errors(2))
  have d: "\<forall>e. fault_CreateFormFile env w = None \<and> fault_Write env w = None \<and>
        fault_Close env w = Some e \<longrightarrow>
      UploadPdfToTablet env fileContents filename w = (Returns (Some e), [], w)"
    by (simp add: UploadPdfToTablet_returned_errors(3))
  have e: "\<forall>body. \<exists>req. http_NewRequest ''POST'' ''http://10.11.99.1/upload'' body = (Some req, None)"
    by (simp add: http_NewRequest_upload)
  have f: "\<exists>req. Method req = ''POST'' \<and> URL req = ''http://10.11.99.1/upload'' \<and>
         Parts (Form req) =
           [\<lparr>FieldName = ''file'', FileName = filename, Payload = fileContents\<rparr>] \<and>
         (\<forall>e w'. client_Do env w req = (Inl e, w') \<longrightarrow>
            UploadPdfToTablet env fileContents filename w = (Returns (Some e), [req], w')) \<and>
         (\<forall>resp w'. client_Do env w req = (Inr resp, w') \<longrightarrow>
            UploadPdfToTablet env fileContents filename w = (Returns None, [req], w'))"
    if nf: "fault_CreateFormFile env w = None \<and> fault_Write env w = None \<and> fault_Close env w = None"
  proof -
    let ?req = "\<lparr>Method = ''POST'', URL = ''http://10.11.99.1/upload'',
                 Header = [''Content-Type'' \<mapsto> ''multipart/form-data; boundary='' @ rand_Boundary env w,
                           ''Accept'' \<mapsto> ''*/*'', ''Connection'' \<mapsto> ''keep-alive''],
                 Form = \<lparr>Boundary = rand_Boundary env w,
                          Parts = [\<lparr>FieldName = ''file'', FileName = filename,
                                    Payload = fileContents\<rparr>],
                          WriteErr = None, Finished = True\<rparr>\<rparr>"
    from nf have s: "UploadPdfToTablet env fileContents filename w =
        (case client_Do env w ?req of
           (Inl e, w') \<Rightarrow> (Returns (Some e), [?req], w')
         | (Inr resp, w') \<Rightarrow> (Returns None, [?req], w'))"
      by (intro UploadPdfToTablet_sends [unfolded Let_def]) simp_all
    have "Method ?req = ''POST'' \<and> URL ?req = ''http://10.11.99.1/upload'' \<and>
         Parts (Form ?req) =
           [\<lparr>FieldName = ''file'', FileName = filename, Payload = fileContents\<rparr>] \<and>
         (\<forall>e w'. client_Do env w ?req = (Inl e, w') \<longrightarrow>
            UploadPdfToTablet env fileContents filename w = (Returns (Some e), [?req], w')) \<and>
         (\<forall>resp w'. client_Do env w ?req = (Inr resp, w') \<longrightarrow>
            UploadPdfToTablet env fileContents filename w = (Returns None, [?req], w'))"
      unfolding s by simp
    then show ?thesis by blast
  qed
  from a b c d e f show ?thesis by blast
qed

theorem UploadPdfToTablet_returns_every_failure_witness:
  "UploadPdfToTablet create_fault_env ''%PDF'' ''a.pdf'' demo_device =
     (Returns (Some (ErrOther ''short write'')), [], demo_device) \<and>
   UploadPdfToTablet write_fault_env ''%PDF'' ''a.pdf'' demo_device =
     (Returns (Some (ErrOther ''buffer full'')), [], demo_device) \<and>
   UploadPdfToTablet close_fault_env ''%PDF'' ''a.pdf'' demo_device =
     (Returns (Some (ErrOther ''closed pipe'')), [], demo_device) \<and>
   (\<exists>req. UploadPdfToTablet offline_env ''%PDF'' ''a.pdf'' demo_device =
      (Returns (Some (ErrOther ''connection refused'')), [req], demo_device)) \<and>
   (\<exists>req. UploadPdfToTablet demo_env ''%PDF'' ''a.pdf'' demo_device =
      (Returns None, [req], demo_device @ [Document ''a.pdf'' True]))"
proof -
  have c: "UploadPdfToTablet create_fault_env ''%PDF'' ''a.pdf'' demo_device =
     (Returns (Some (ErrOther ''short write'')), [], demo_device)"
  proof -
    have "fault_CreateFormFile create_fault_env demo_device = Some (ErrOther ''short write'')"
      by (simp add: create_fault_env_def)
    with UploadPdfToTablet_returns_every_failure
      [of create_fault_env "''%PDF''" "''a.pdf''" demo_device]
    show ?thesis by blast
  qed
  have w: "UploadPdfToTablet write_fault_env ''%PDF'' ''a.pdf'' demo_device =
     (Returns (Some (ErrOther ''buffer full'')), [], demo_device)"
  proof -
    have "fault_CreateFormFile write_fault_env demo_device = None \<and>
        fault_Write write_fault_env demo_device = Some (2, ErrOther ''buffer full'')"
      by (simp add: write_fault_env_def demo_env_def)
    with UploadPdfToTablet_returns_every_failure
      [of write_fault_env "''%PDF''" "''a.pdf''" demo_device]
    show ?thesis by blast
  qed
  have cl: "UploadPdfToTablet close_fault_env ''%PDF'' ''a.pdf'' demo_device =
     (Returns (Some (ErrOther ''closed pipe'')), [], demo_device)"
  proof -
    have "fault_CreateFormFile close_fault_env demo_device = None \<and>
        fault_Write close_fault_env demo_device = None \<and>
        fault_Close close_fault_env demo_device = Some (ErrOther ''closed pipe'')"
      by (simp add: close_fault_env_def demo_env_def)
    with UploadPdfToTablet_returns_every_failure
      [of close_fault_env "''%PDF''" "''a.pdf''" demo_device]
    show ?thesis by blast
  qed
  have off: "\<exists>req. UploadPdfToTablet offline_env ''%PDF'' ''a.pdf'' demo_device =
      (Returns (Some (ErrOther ''connection refused'')), [req], demo_device)"
  proof -
    have nf: "fault_CreateFormFile offline_env demo_device = None \<and>
        fault_Write offline_env demo_device = None \<and> fault_Close offline_env demo_device = None"
      by (simp add: offline_env_sel)
    from UploadPdfToTablet_returns_every_failure
      [of offline_env "''%PDF''" "''a.pdf''" demo_device] nf
    obtain req where
      "\<forall>e w'. client_Do offline_env demo_device req = (Inl e, w') \<longrightarrow>
         UploadPdfToTablet offline_env ''%PDF'' ''a.pdf'' demo_device = (Returns (Some e), [req], w')"
      by blast
    moreover have "client_Do offline_env demo_device req =
        (Inl (ErrOther ''connection refused''), demo_device)"
      by (simp add: offline_env_sel)
    ultimately show ?thesis by blast
  qed
  have on: "\<exists>req. UploadPdfToTablet demo_env ''%PDF'' ''a.pdf'' demo_device =
      (Returns None, [req], demo_device @ [Document ''a.pdf'' True])"
  proof -
    have nf: "fault_CreateFormFile demo_env demo_device = None \<and>
        fault_Write demo_env demo_device = None \<and> fault_Close demo_env demo_device = None"
      by (simp add: demo_env_sel)
    from UploadPdfToTablet_returns_every_failure
      [of demo_env "''%PDF''" "''a.pdf''" demo_device] nf
    obtain req where p: "Parts (Form req) =
           [\<lparr>FieldName = ''file'', FileName = ''a.pdf'', Payload = ''%PDF''\<rparr>]"
      and r: "\<forall>resp w'. client_Do demo_env demo_device req = (Inr resp, w') \<longrightarrow>
         UploadPdfToTablet demo_env ''%PDF'' ''a.pdf'' demo_device = (Returns None, [req], w')"
      by blast
    have "client_Do demo_env demo_device req =
        (Inr \<lparr>StatusCode = 200, Body = Inr []\<rparr>, demo_device @ [Document ''a.pdf'' True])"
      using p by (simp add: demo_env_sel demo_Do_def)
    with r show ?thesis by blast
  qed
  from c w cl off on show ?thesis by (intro conjI)
qed

end
